theory Spec2Isabelle
  imports Complex_Main
begin

section \<open>Values decoded from JSON and the Python operations applied to them\<close>

text \<open>
  The monitor (\<^verbatim>\<open>src/piaware-epaper.py\<close>, class \<^verbatim>\<open>PiAware\<close>) works on whatever
  \<^verbatim>\<open>Response.json()\<close> hands back: \<^verbatim>\<open>None\<close>, a bool, a number, a string, a list or a
  dict. A dict is kept as an association list read with \<open>map_of\<close>. A number of the
  document (a Python \<^verbatim>\<open>int\<close> or a finite \<^verbatim>\<open>float\<close>) is kept by its value, a real:
  Python compares such numbers by value. The non-finite tokens \<^verbatim>\<open>NaN\<close> and
  \<^verbatim>\<open>Infinity\<close> are left out. Strings are ASCII text.

  \<^verbatim>\<open>src/epd.py\<close> is an earlier generation of the same program, written as module
  functions; the definitions below follow \<^verbatim>\<open>src/piaware-epaper.py\<close>.
\<close>

datatype json =
    JNull
  | JBool bool
  | JNum real
  | JStr string
  | JArr "json list"
  | JObj "(string \<times> json) list"

text \<open>The exceptions the program can meet; a raise is the value \<open>Inl e\<close>.\<close>

datatype error =
    ValueError
  | RuntimeError
  | TypeError
  | KeyError
  | AttributeError
  | IndexError
  | JSONDecodeError
  | IOError
  | SystemExit
  | OverflowError

fun is_substring :: "string \<Rightarrow> string \<Rightarrow> bool" where
  "is_substring k [] = (k = [])"
| "is_substring k (c # cs) = (take (length k) (c # cs) = k \<or> is_substring k cs)"

text \<open>\<^verbatim>\<open>key in v\<close> for a string key: dict membership, list membership, substring test;
  any other operand is not iterable.\<close>

definition py_in :: "string \<Rightarrow> json \<Rightarrow> error + bool" where
  "py_in k v =
     (case v of
        JObj kvs \<Rightarrow> Inr (k \<in> set (map fst kvs))
      | JArr xs \<Rightarrow> Inr (JStr k \<in> set xs)
      | JStr s \<Rightarrow> Inr (is_substring k s)
      | _ \<Rightarrow> Inl TypeError)"

text \<open>\<^verbatim>\<open>v[key]\<close> for a string key: only a dict can be indexed by a string.\<close>

definition py_getitem :: "json \<Rightarrow> string \<Rightarrow> error + json" where
  "py_getitem v k =
     (case v of
        JObj kvs \<Rightarrow> (case map_of kvs k of None \<Rightarrow> Inl KeyError | Some x \<Rightarrow> Inr x)
      | _ \<Rightarrow> Inl TypeError)"

text \<open>\<^verbatim>\<open>for x in v\<close>: the elements of a list, the keys of a dict, the characters of a
  string.\<close>

definition py_iter :: "json \<Rightarrow> error + json list" where
  "py_iter v =
     (case v of
        JArr xs \<Rightarrow> Inr xs
      | JObj kvs \<Rightarrow> Inr (map (\<lambda>kv. JStr (fst kv)) kvs)
      | JStr s \<Rightarrow> Inr (map (\<lambda>c. JStr [c]) s)
      | _ \<Rightarrow> Inl TypeError)"

text \<open>The numeric value of an operand of \<^verbatim>\<open><=\<close> or of \<^verbatim>\<open>math.radians\<close>; a Python bool is
  the integer 0 or 1.\<close>

definition py_number :: "json \<Rightarrow> real option" where
  "py_number v =
     (case v of
        JNum x \<Rightarrow> Some x
      | JBool b \<Rightarrow> Some (if b then 1 else 0)
      | _ \<Rightarrow> None)"

text \<open>\<^verbatim>\<open>v <= threshold\<close> with an integer threshold.\<close>

definition py_le :: "json \<Rightarrow> int \<Rightarrow> error + bool" where
  "py_le v threshold =
     (case py_number v of
        Some x \<Rightarrow> Inr (x \<le> of_int threshold)
      | None \<Rightarrow> Inl TypeError)"

definition unhashable :: "json \<Rightarrow> bool" where
  "unhashable v = (case v of JArr xs \<Rightarrow> True | JObj kvs \<Rightarrow> True | _ \<Rightarrow> False)"

text \<open>\<^verbatim>\<open>{k1, k2, ...}.issubset(v)\<close>: the operand is first turned into a set of its elements
  (the keys of a dict), which fails on an unhashable element.\<close>

definition py_issubset :: "string list \<Rightarrow> json \<Rightarrow> error + bool" where
  "py_issubset ks v =
     (case v of
        JObj kvs \<Rightarrow> Inr (list_all (\<lambda>k. k \<in> set (map fst kvs)) ks)
      | JArr xs \<Rightarrow>
          (if list_ex unhashable xs then Inl TypeError
           else Inr (list_all (\<lambda>k. JStr k \<in> set xs) ks))
      | JStr s \<Rightarrow> Inr (list_all (\<lambda>k. k \<in> set (map (\<lambda>c. [c]) s)) ks)
      | _ \<Rightarrow> Inl TypeError)"

subsection \<open>Floats\<close>

text \<open>
  The result of a float operation: a finite value, an infinity, or not a number.
  What an operation returns is not computed here; it is asked of the float library
  of the environment (\<open>float_lib\<close> below), which rounds as the machine does and
  raises where Python raises. Only the comparisons are fixed: they are exact, also
  between a float and an \<^verbatim>\<open>int\<close>, and false on \<^verbatim>\<open>nan\<close>.
\<close>

datatype pyfloat = Finite real | PosInf | NegInf | NaN

fun pf_less :: "pyfloat \<Rightarrow> pyfloat \<Rightarrow> bool" where
  "pf_less (Finite x) (Finite y) = (x < y)"
| "pf_less (Finite x) PosInf = True"
| "pf_less NegInf (Finite y) = True"
| "pf_less NegInf PosInf = True"
| "pf_less a b = False"

text \<open>A range in meters as \<^verbatim>\<open>Helpers.distance\<close> holds it: the \<^verbatim>\<open>int\<close> it starts from, or
  the float of a computed distance.\<close>

datatype pynum = PyInt int | PyFloat pyfloat

definition exact_value :: "pynum \<Rightarrow> pyfloat" where
  "exact_value n = (case n of PyInt i \<Rightarrow> Finite (of_int i) | PyFloat x \<Rightarrow> x)"

text \<open>The distance handed to a notification: a value of the document or a string, or
  a float of kilometers.\<close>

datatype pyvalue = OfJson json | OfFloat pyfloat

text \<open>Sequencing of computations that may raise.\<close>

definition bindR :: "error + 'a \<Rightarrow> ('a \<Rightarrow> error + 'b) \<Rightarrow> error + 'b" where
  "bindR r f = (case r of Inl err \<Rightarrow> Inl err | Inr x \<Rightarrow> f x)"

subsection \<open>Strings\<close>

definition upper_char :: "char \<Rightarrow> char" where
  "upper_char c =
     (case map_of (zip ''abcdefghijklmnopqrstuvwxyz'' ''ABCDEFGHIJKLMNOPQRSTUVWXYZ'') c of
        Some u \<Rightarrow> u
      | None \<Rightarrow> c)"

definition lower_char :: "char \<Rightarrow> char" where
  "lower_char c =
     (case map_of (zip ''ABCDEFGHIJKLMNOPQRSTUVWXYZ'' ''abcdefghijklmnopqrstuvwxyz'') c of
        Some l \<Rightarrow> l
      | None \<Rightarrow> c)"

definition upper :: "string \<Rightarrow> string" where
  "upper s = map upper_char s"

definition lower :: "string \<Rightarrow> string" where
  "lower s = map lower_char s"

text \<open>The characters \<^verbatim>\<open>str.strip()\<close> removes, in the ASCII range.\<close>

definition is_space :: "char \<Rightarrow> bool" where
  "is_space c =
     (c \<in> set [CHR 0x09, CHR 0x0A, CHR 0x0B, CHR 0x0C, CHR 0x0D,
                CHR 0x1C, CHR 0x1D, CHR 0x1E, CHR 0x1F, CHR 0x20])"

definition strip :: "string \<Rightarrow> string" where
  "strip s = rev (dropWhile is_space (rev (dropWhile is_space s)))"

section \<open>The process environment and the effects of the program\<close>

record url_parts =
  scheme :: string
  netloc :: string

text \<open>What \<^verbatim>\<open>Response.json()\<close> does with the body of a response: decode it, or raise.\<close>

datatype body = Malformed | Parsed json

record response =
  status_code :: int
  content :: body

text \<open>The outcome of \<^verbatim>\<open>session.get\<close>, retries included: an exception (the connection
  failed and the retries are used up) or a response.\<close>

datatype transfer = Raised | Answered response

record request =
  req_url :: string
  req_bust :: bool
  req_retry :: int
  req_backoff :: pyfloat

record Position =
  latitude :: json
  longitude :: json

text \<open>A notification as handed to \<^verbatim>\<open>chat_postMessage\<close>, by its variable parts.\<close>

record slack_message =
  msg_channel :: string
  msg_mode :: string
  msg_description :: string
  msg_icao_reg :: json
  msg_callsign :: json
  msg_squawk :: json
  msg_distance :: pyvalue
  msg_distance_in_km :: bool

text \<open>\<^verbatim>\<open>chat_postMessage\<close> raises, or answers with a truthy or falsy \<^verbatim>\<open>ok\<close>.\<close>

datatype slack_outcome = SlackRaised | SlackAnswered bool

datatype level = DEBUG | INFO | WARNING | ERROR

text \<open>The result of \<^verbatim>\<open>get_aircrafts\<close>, annotated \<^verbatim>\<open>Union[list, int]\<close>: the count, or the
  decoded document when \<^verbatim>\<open>raw\<close> is set.\<close>

datatype aircrafts = Count nat | Raw json

text \<open>The values \<^verbatim>\<open>refresh\<close> draws, line by line, before they are formatted.\<close>

record screen =
  scr_status_slug :: string
  scr_status_time :: string
  scr_status_piaware :: json
  scr_status_gps :: json
  scr_status_radio :: json
  scr_count_all :: aircrafts
  scr_count_pos :: aircrafts
  scr_count_mlat :: aircrafts
  scr_min_range :: pyfloat
  scr_max_range :: pyfloat
  scr_uptime :: string
  scr_cpu_load :: json
  scr_cpu_temp :: json
  scr_cycle :: int
  scr_local_ip :: string

text \<open>Operations on the display, the image file and the GPIO pins; \<open>Fault\<close> stands for
  one that raised.\<close>

datatype hw_event =
    EpdInit
  | EpdClear string
  | EpdDisplay screen
  | EpdSleep
  | SaveImage
  | GpioCleanup
  | GpioSetmode
  | Fault

text \<open>
  The float library: \<^verbatim>\<open>math.radians\<close> of a number (\<^verbatim>\<open>OverflowError\<close> on an \<^verbatim>\<open>int\<close> too
  large for a float), \<^verbatim>\<open>float\<close> of an \<^verbatim>\<open>int\<close>, the four arithmetic operations (the
  program divides by the constants 2.0 and 1000 only), \<^verbatim>\<open>x ** 2\<close>, the functions of
  \<^verbatim>\<open>math\<close> (\<^verbatim>\<open>ValueError\<close> outside their domain), \<^verbatim>\<open>round(x, n)\<close> of a float and of a
  number of the document, and \<^verbatim>\<open>str\<close> of a float.
\<close>

record float_lib =
  f_radians :: "real \<Rightarrow> error + pyfloat"
  f_float :: "int \<Rightarrow> error + pyfloat"
  f_add :: "pyfloat \<Rightarrow> pyfloat \<Rightarrow> pyfloat"
  f_sub :: "pyfloat \<Rightarrow> pyfloat \<Rightarrow> pyfloat"
  f_mul :: "pyfloat \<Rightarrow> pyfloat \<Rightarrow> pyfloat"
  f_div :: "pyfloat \<Rightarrow> pyfloat \<Rightarrow> pyfloat"
  f_square :: "pyfloat \<Rightarrow> error + pyfloat"
  f_sin :: "pyfloat \<Rightarrow> error + pyfloat"
  f_cos :: "pyfloat \<Rightarrow> error + pyfloat"
  f_sqrt :: "pyfloat \<Rightarrow> error + pyfloat"
  f_asin :: "pyfloat \<Rightarrow> error + pyfloat"
  f_round :: "pyfloat \<Rightarrow> int \<Rightarrow> error + pyfloat"
  f_round_number :: "real \<Rightarrow> int \<Rightarrow> error + real"
  f_str :: "pyfloat \<Rightarrow> string"

text \<open>
  Everything outside the program is a parameter: the environment variables, the
  library functions whose results the program only passes on, the HTTP transport
  (\<open>session_get n rq\<close> is the outcome of the request \<open>rq\<close> when \<open>n\<close> requests went
  before it), the Slack transport, and the hardware (\<open>hw_fault n\<close>: the hardware
  operation issued after \<open>n\<close> earlier ones raises \<^verbatim>\<open>IOError\<close>). \<open>timedelta_str\<close> is
  \<^verbatim>\<open>str(timedelta(seconds=v))\<close>, \<open>strftime_ms\<close> is
  \<^verbatim>\<open>datetime.fromtimestamp(v / 1000).strftime(...)\<close>, \<open>sockname\<close> is the address the
  probe socket reports (\<open>None\<close> when it raises), and \<open>json_error_is_ioerror\<close> says
  whether the decode error of the installed \<^verbatim>\<open>requests\<close> is an \<^verbatim>\<open>IOError\<close> (it is one
  from version 2.27 on), and \<open>fl\<close> is the float library. Loading the font files is
  taken to succeed.
\<close>

record env =
  getenv :: "string \<Rightarrow> string option"
  docker_env_exists :: bool
  sys_maxsize :: int
  urlparse :: "string \<Rightarrow> url_parts option"
  py_int :: "string \<Rightarrow> int option"
  py_float :: "string \<Rightarrow> pyfloat option"
  py_str :: "json \<Rightarrow> string"
  session_get :: "nat \<Rightarrow> request \<Rightarrow> transfer"
  chat_postMessage :: "nat \<Rightarrow> slack_message \<Rightarrow> slack_outcome"
  hw_fault :: "nat \<Rightarrow> bool"
  timedelta_str :: "json \<Rightarrow> error + string"
  strftime_ms :: "json \<Rightarrow> error + string"
  cpu_count :: "int option"
  sockname :: "string option"
  json_error_is_ioerror :: bool
  fl :: float_lib

text \<open>The mutable world: the requests, notifications, log records and hardware
  operations issued so far, and the class attribute \<^verbatim>\<open>PiAware.receiver_position\<close>.\<close>

record state =
  requests :: "request list"
  slack_posts :: "slack_message list"
  logs :: "(level \<times> string) list"
  hw :: "hw_event list"
  receiver_position :: "Position option"

type_synonym 'a action = "state \<Rightarrow> (error + 'a) \<times> state"

definition returnE :: "'a \<Rightarrow> 'a action" where
  "returnE x s = (Inr x, s)"

definition raiseE :: "error \<Rightarrow> 'a action" where
  "raiseE e s = (Inl e, s)"

definition liftE :: "error + 'a \<Rightarrow> 'a action" where
  "liftE r s = (r, s)"

definition bindE :: "'a action \<Rightarrow> ('a \<Rightarrow> 'b action) \<Rightarrow> 'b action" where
  "bindE m f s = (case m s of (Inl e, s') \<Rightarrow> (Inl e, s') | (Inr x, s') \<Rightarrow> f x s')"

definition logging :: "level \<Rightarrow> string \<Rightarrow> unit action" where
  "logging l msg s = (Inr (), s\<lparr>logs := logs s @ [(l, msg)]\<rparr>)"

subsection \<open>Module constants\<close>

definition getenv_default :: "env \<Rightarrow> string \<Rightarrow> string \<Rightarrow> string" where
  "getenv_default e name d = (case getenv e name of None \<Rightarrow> d | Some v \<Rightarrow> v)"

definition PIAWARE_HOST :: "env \<Rightarrow> string" where
  "PIAWARE_HOST e = getenv_default e ''PIAWARE_HOST'' ''http://127.0.0.1:8080''"

definition PIAWARE_BACKOFF :: "env \<Rightarrow> string" where
  "PIAWARE_BACKOFF e = getenv_default e ''PIAWARE_BACKOFF'' ''1.0''"

definition PIAWARE_RETRIES :: "env \<Rightarrow> string" where
  "PIAWARE_RETRIES e = getenv_default e ''PIAWARE_RETRIES'' ''10''"

definition FLIGHTRADAR_HOST :: "env \<Rightarrow> string" where
  "FLIGHTRADAR_HOST e = getenv_default e ''FLIGHTRADAR_HOST'' ''http://127.0.0.1:8754''"

definition RUNNING_IN_DOCKER :: "env \<Rightarrow> bool" where
  "RUNNING_IN_DOCKER e = docker_env_exists e"

definition EMERGENCY_SQUAWK :: "(string \<times> string) list" where
  "EMERGENCY_SQUAWK =
     [(''7500'', ''Unlawful interference (hijacking)''),
      (''7600'', ''Aircraft has lost verbal communication''),
      (''7700'', ''General emergency'')]"

definition ICAO_OF_SPECIAL_INTEREST :: "(string \<times> string) list" where
  "ICAO_OF_SPECIAL_INTEREST =
     [(''3EA12C'', ''Luftwaffe A350-900 VIP 10+01 Konrad Adenauer''),
      (''3F5D91'', ''Luftwaffe A350-900 VIP 10+02 Theodor Heuss''),
      (''3E854F'', ''Luftwaffe A350-900 VIP 10+03 Kurt Schumacher'')]"

definition REGISTRATION_OF_SPECIAL_INTEREST :: "(string \<times> string) list" where
  "REGISTRATION_OF_SPECIAL_INTEREST = []"

section \<open>Helpers\<close>

text \<open>\<^verbatim>\<open>Helpers.check_supported\<close>: true, or \<^verbatim>\<open>ValueError\<close>.\<close>

definition check_supported :: "string \<Rightarrow> string list \<Rightarrow> error + bool" where
  "check_supported needle haystack =
     (if needle \<in> set haystack then Inr True else Inl ValueError)"

text \<open>\<^verbatim>\<open>Helpers.is_valid_url\<close>: \<^verbatim>\<open>all([result.scheme, result.netloc])\<close>, and false when
  \<^verbatim>\<open>urlparse\<close> raises.\<close>

definition is_valid_url :: "env \<Rightarrow> string \<Rightarrow> bool" where
  "is_valid_url e url =
     (case urlparse e url of
        None \<Rightarrow> False
      | Some r \<Rightarrow> scheme r \<noteq> [] \<and> netloc r \<noteq> [])"

text \<open>
  \<^verbatim>\<open>Helpers.download\<close>. The URL is checked before the session exists; the retry count and
  the backoff factor default to the environment's, converted with \<^verbatim>\<open>int\<close> and
  \<^verbatim>\<open>float\<close> outside the \<^verbatim>\<open>try\<close>; the request itself is inside it. The result is the
  response, or \<open>None\<close> for the \<^verbatim>\<open>False\<close> the source returns.
\<close>

definition download :: "env \<Rightarrow> string \<Rightarrow> int option \<Rightarrow> pyfloat option \<Rightarrow> bool \<Rightarrow> response option action" where
  "download e url retry backoff bust s =
     (if \<not> is_valid_url e url then (Inl RuntimeError, s)
      else
        case (case retry of None \<Rightarrow> py_int e (PIAWARE_RETRIES e) | Some n \<Rightarrow> Some n) of
          None \<Rightarrow> (Inl ValueError, s)
        | Some retry' \<Rightarrow>
            (case (case backoff of None \<Rightarrow> py_float e (PIAWARE_BACKOFF e) | Some b \<Rightarrow> Some b) of
               None \<Rightarrow> (Inl ValueError, s)
             | Some backoff' \<Rightarrow>
                 (let rq = \<lparr>req_url = url, req_bust = bust, req_retry = retry', req_backoff = backoff'\<rparr>;
                      s' = s\<lparr>requests := requests s @ [rq]\<rparr>
                  in case session_get e (length (requests s)) rq of
                       Answered r \<Rightarrow>
                         (if status_code r = 200 then (Inr (Some r), s') else (Inr None, s'))
                     | Raised \<Rightarrow>
                         (Inr None, s'\<lparr>logs := logs s' @ [(ERROR, ''Error GETing \"%s\" (error: %s)'')]\<rparr>))))"

text \<open>\<^verbatim>\<open>r.json()\<close>, and the truth value of a response (\<^verbatim>\<open>Response.ok\<close>).\<close>

definition response_json :: "response \<Rightarrow> error + json" where
  "response_json r = (case content r of Malformed \<Rightarrow> Inl JSONDecodeError | Parsed j \<Rightarrow> Inr j)"

definition response_truthy :: "response \<Rightarrow> bool" where
  "response_truthy r = (status_code r < 400)"

section \<open>Telemetry fetches\<close>

definition get_status :: "env \<Rightarrow> json action" where
  "get_status e =
     bindE (download e (PIAWARE_HOST e @ ''/status.json'') None None True)
       (\<lambda>r. case r of
               None \<Rightarrow> returnE (JObj [])
             | Some resp \<Rightarrow>
                 if response_truthy resp then liftE (response_json resp) else returnE (JObj []))"

definition get_receiver :: "env \<Rightarrow> json action" where
  "get_receiver e =
     bindE (download e (PIAWARE_HOST e @ ''/skyaware/data/receiver.json'') None None True)
       (\<lambda>r. case r of
               None \<Rightarrow> returnE (JObj [])
             | Some resp \<Rightarrow> liftE (response_json resp))"


section \<open>Geodesy and small helpers\<close>

text \<open>\<^verbatim>\<open>radians(x)\<close> for a coordinate: \<^verbatim>\<open>TypeError\<close> unless it is a number.\<close>

definition coordinate_radians :: "env \<Rightarrow> json \<Rightarrow> error + pyfloat" where
  "coordinate_radians e v =
     (case py_number v of None \<Rightarrow> Inl TypeError | Some x \<Rightarrow> f_radians (fl e) x)"

text \<open>
  \<^verbatim>\<open>Helpers.haversine_distance\<close>, operation by operation in the order Python evaluates
  them; every operation is the float library's.
\<close>

definition haversine_distance :: "env \<Rightarrow> Position \<Rightarrow> Position \<Rightarrow> pyfloat \<Rightarrow> error + pyfloat" where
  "haversine_distance e pos1 pos2 radius =
     bindR (coordinate_radians e (latitude pos1)) (\<lambda>lat1.
     bindR (coordinate_radians e (longitude pos1)) (\<lambda>lon1.
     bindR (coordinate_radians e (latitude pos2)) (\<lambda>lat2.
     bindR (coordinate_radians e (longitude pos2)) (\<lambda>lon2.
     bindR (f_sin (fl e) (f_div (fl e) (f_sub (fl e) lat2 lat1) (Finite 2))) (\<lambda>sin_lat.
     bindR (f_square (fl e) sin_lat) (\<lambda>sin_lat_2.
     bindR (f_cos (fl e) lat1) (\<lambda>cos_lat1.
     bindR (f_cos (fl e) lat2) (\<lambda>cos_lat2.
     bindR (f_sin (fl e) (f_div (fl e) (f_sub (fl e) lon2 lon1) (Finite 2))) (\<lambda>sin_lon.
     bindR (f_square (fl e) sin_lon) (\<lambda>sin_lon_2.
     bindR (Inr (f_add (fl e) sin_lat_2 (f_mul (fl e) (f_mul (fl e) cos_lat1 cos_lat2) sin_lon_2))) (\<lambda>hav.
     bindR (f_sqrt (fl e) hav) (\<lambda>root.
     bindR (f_asin (fl e) root) (\<lambda>angle.
     Inr (f_mul (fl e) (f_mul (fl e) (Finite 2) radius) angle))))))))))))))"

text \<open>The default of the parameter \<^verbatim>\<open>radius\<close>, \<^verbatim>\<open>6371.0e3\<close>.\<close>

definition earth_radius :: pyfloat where
  "earth_radius = Finite 6371000"

text \<open>\<^verbatim>\<open>Helpers.to_kilometers\<close>: \<^verbatim>\<open>round(float(meters) / 1000, decimals)\<close>.\<close>

definition to_kilometers :: "env \<Rightarrow> pynum \<Rightarrow> int \<Rightarrow> error + pyfloat" where
  "to_kilometers e meters decimals =
     bindR (case meters of PyInt n \<Rightarrow> f_float (fl e) n | PyFloat x \<Rightarrow> Inr x) (\<lambda>m.
     f_round (fl e) (f_div (fl e) m (Finite 1000)) decimals)"

text \<open>\<^verbatim>\<open>str(v)\<close>: a string is itself, anything else is printed by the library.\<close>

definition str_of :: "env \<Rightarrow> json \<Rightarrow> string" where
  "str_of e v = (case v of JStr s \<Rightarrow> s | _ \<Rightarrow> py_str e v)"

definition str_value :: "env \<Rightarrow> pyvalue \<Rightarrow> string" where
  "str_value e v = (case v of OfJson j \<Rightarrow> str_of e j | OfFloat x \<Rightarrow> f_str (fl e) x)"

definition trim :: "env \<Rightarrow> json \<Rightarrow> string" where
  "trim e v = strip (str_of e v)"

text \<open>\<^verbatim>\<open>Helpers.contains_any\<close>: \<^verbatim>\<open>needle.upper()\<close> exists only on a string, and is
  evaluated for the first element of a non-empty haystack.\<close>

definition contains_any :: "json \<Rightarrow> string list \<Rightarrow> error + bool" where
  "contains_any needle haystack =
     (case needle of
        JStr n \<Rightarrow> Inr (list_ex (\<lambda>element. upper element = upper n) haystack)
      | _ \<Rightarrow> if haystack = [] then Inr False else Inl AttributeError)"

text \<open>\<^verbatim>\<open>Helpers.bool_from_env\<close>.\<close>

definition bool_from_env :: "env \<Rightarrow> string \<Rightarrow> bool" where
  "bool_from_env e needle =
     (lower (getenv_default e (upper needle) ''False'') \<in> set [''true'', ''1'', ''t''])"

text \<open>A loop over a list that threads an accumulator and stops at the first raise.\<close>

fun forE :: "'a list \<Rightarrow> 'b \<Rightarrow> ('a \<Rightarrow> 'b \<Rightarrow> 'b action) \<Rightarrow> 'b action" where
  "forE [] acc body = returnE acc"
| "forE (x # xs) acc body = bindE (body x acc) (\<lambda>acc'. forE xs acc' body)"

section \<open>Receiver position\<close>

text \<open>Reading the class attribute \<^verbatim>\<open>PiAware.receiver_position\<close>, which \<^verbatim>\<open>setup\<close> sets
  once; \<open>None\<close> until then.\<close>

definition cached_position :: "Position option action" where
  "cached_position s = (Inr (receiver_position s), s)"

text \<open>\<^verbatim>\<open>PiAware.get_receiver_position\<close>.\<close>

definition get_receiver_position :: "env \<Rightarrow> Position action" where
  "get_receiver_position e =
     bindE cached_position (\<lambda>cached.
       case cached of
         Some p \<Rightarrow> bindE (logging DEBUG ''Found own %s'') (\<lambda>_. returnE p)
       | None \<Rightarrow>
           bindE (get_receiver e) (\<lambda>receiver.
           bindE (liftE (py_issubset [''lat'', ''lon''] receiver)) (\<lambda>both.
             if both then
               bindE (liftE (py_getitem receiver ''lat'')) (\<lambda>lat.
               bindE (liftE (py_getitem receiver ''lon'')) (\<lambda>lon.
               bindE (logging DEBUG ''Own %s'') (\<lambda>_.
               returnE \<lparr>latitude = lat, longitude = lon\<rparr>)))
             else
               bindE (logging ERROR ''Could not get own Location. Own %s'') (\<lambda>_.
               returnE \<lparr>latitude = JNum 0, longitude = JNum 0\<rparr>))))"

section \<open>Notification dispatcher\<close>

text \<open>A subscript into one of the fixed tables: \<^verbatim>\<open>KeyError\<close> or \<^verbatim>\<open>TypeError\<close> unless the
  key is a string of the table.\<close>

definition table_get :: "(string \<times> string) list \<Rightarrow> json \<Rightarrow> string option" where
  "table_get table k = (case k of JStr s \<Rightarrow> map_of table s | _ \<Rightarrow> None)"

text \<open>
  The \<^verbatim>\<open>try\<close> block of \<^verbatim>\<open>Helpers.send_slack_notification\<close> with its handler
  \<^verbatim>\<open>except Exception\<close>: the host is parsed, the description is looked up in the table
  of the mode, the message is built and posted. Whatever is raised on the way ends
  in an error record and \<^verbatim>\<open>False\<close>; otherwise the result is the truth value of the
  answer's \<^verbatim>\<open>ok\<close>.
\<close>

definition slack_attempt ::
    "env \<Rightarrow> string \<Rightarrow> json \<Rightarrow> json \<Rightarrow> json \<Rightarrow> pyvalue \<Rightarrow> string \<Rightarrow> state \<Rightarrow> bool \<times> state" where
  "slack_attempt e slack_channel icao_reg callsign squawk distance mode s =
     (let failed = (False, s\<lparr>logs := logs s @ [(ERROR, ''Unable to Send Slack Message: %s'')]\<rparr>)
      in case urlparse e (PIAWARE_HOST e) of
           None \<Rightarrow> failed
         | Some piaware_host_parsed \<Rightarrow>
             (case (if mode = ''emergency'' then table_get EMERGENCY_SQUAWK squawk
                    else if mode = ''registration''
                      then table_get REGISTRATION_OF_SPECIAL_INTEREST callsign
                    else table_get ICAO_OF_SPECIAL_INTEREST icao_reg) of
                None \<Rightarrow> failed
              | Some description_block \<Rightarrow>
                  (let m = \<lparr>msg_channel = slack_channel, msg_mode = mode,
                            msg_description = description_block,
                            msg_icao_reg = icao_reg, msg_callsign = callsign,
                            msg_squawk = squawk, msg_distance = distance,
                            msg_distance_in_km = (lower (str_value e distance) \<noteq> ''unknown'')\<rparr>;
                       s' = s\<lparr>slack_posts := slack_posts s @ [m]\<rparr>
                   in case chat_postMessage e (length (slack_posts s)) m of
                        SlackAnswered ok \<Rightarrow> (ok, s')
                      | SlackRaised \<Rightarrow>
                          (False,
                           s'\<lparr>logs := logs s' @ [(ERROR, ''Unable to Send Slack Message: %s'')]\<rparr>))))"

text \<open>
  \<^verbatim>\<open>Helpers.send_slack_notification\<close>. Without token or channel nothing is attempted.
  With them the mode is checked first, outside the \<^verbatim>\<open>try\<close>.
\<close>

definition send_slack_notification ::
    "env \<Rightarrow> json \<Rightarrow> json \<Rightarrow> json \<Rightarrow> pyvalue \<Rightarrow> string \<Rightarrow> bool action" where
  "send_slack_notification e icao_reg callsign squawk distance mode s =
     (case getenv e ''SLACK_BOT_TOKEN'' of
        None \<Rightarrow> (Inr False, s)
      | Some slack_token \<Rightarrow>
          (case getenv e ''SLACK_CHANNEL'' of
             None \<Rightarrow> (Inr False, s)
           | Some slack_channel \<Rightarrow>
               (case check_supported mode [''emergency'', ''registration'', ''icao''] of
                  Inl err \<Rightarrow> (Inl err, s)
                | Inr supported \<Rightarrow>
                    (case slack_attempt e slack_channel icao_reg callsign squawk distance mode s of
                       (delivered, s') \<Rightarrow> (Inr delivered, s')))))"

section \<open>Aircraft filter\<close>

text \<open>The distance of an aircraft from the receiver, in kilometers, or \<^verbatim>\<open>"unknown"\<close>
  when it reports no coordinates: the block both watchlist scans repeat.\<close>

definition watch_distance :: "env \<Rightarrow> json \<Rightarrow> pyvalue action" where
  "watch_distance e aircraft =
     bindE (liftE (py_issubset [''lat'', ''lon''] aircraft)) (\<lambda>both.
       if both then
         bindE (get_receiver_position e) (\<lambda>origin.
         bindE (liftE (py_getitem aircraft ''lat'')) (\<lambda>lat.
         bindE (liftE (py_getitem aircraft ''lon'')) (\<lambda>lon.
         bindE (liftE (haversine_distance e origin \<lparr>latitude = lat, longitude = lon\<rparr> earth_radius)) (\<lambda>d.
         bindE (liftE (to_kilometers e (PyFloat d) 2)) (\<lambda>km.
         returnE (OfFloat km))))))
       else returnE (OfJson (JStr ''unknown'')))"

text \<open>\<^verbatim>\<open>trim(aircraft[key]) if key in aircraft else "unknown"\<close>.\<close>

definition trimmed_or_unknown :: "env \<Rightarrow> json \<Rightarrow> string \<Rightarrow> error + string" where
  "trimmed_or_unknown e aircraft key =
     (case py_in key aircraft of
        Inl err \<Rightarrow> Inl err
      | Inr False \<Rightarrow> Inr ''unknown''
      | Inr True \<Rightarrow>
          (case py_getitem aircraft key of Inl err \<Rightarrow> Inl err | Inr v \<Rightarrow> Inr (trim e v)))"

text \<open>\<^verbatim>\<open>PiAware.__process_special_interest\<close>, first the callsign watchlist, then the
  identifier watchlist.\<close>

definition special_registration :: "env \<Rightarrow> json \<Rightarrow> unit action" where
  "special_registration e aircraft =
     bindE (liftE (py_in ''flight'' aircraft)) (\<lambda>has_flight.
       if has_flight \<and> 1 \<le> length REGISTRATION_OF_SPECIAL_INTEREST then
         bindE (liftE (py_getitem aircraft ''flight'')) (\<lambda>f.
         let flight = trim e f in
         bindE (liftE (contains_any (JStr flight) (map fst REGISTRATION_OF_SPECIAL_INTEREST))) (\<lambda>contains_registration.
           if contains_registration then
             bindE (watch_distance e aircraft) (\<lambda>distance.
             bindE (liftE (trimmed_or_unknown e aircraft ''squawk'')) (\<lambda>squawk.
             bindE (liftE (py_getitem aircraft ''hex'')) (\<lambda>hex.
             bindE (send_slack_notification e hex (JStr flight) (JStr squawk) distance ''registration'') (\<lambda>sent.
               if sent then
                 (case map_of REGISTRATION_OF_SPECIAL_INTEREST flight of
                    None \<Rightarrow> raiseE KeyError
                  | Some remarks \<Rightarrow>
                      logging INFO ''Found Registration of Special Interest (%s) in %s km distance. Remarks: %s'')
               else returnE ()))))
           else returnE ()))
       else returnE ())"

definition special_icao :: "env \<Rightarrow> json \<Rightarrow> unit action" where
  "special_icao e aircraft =
     bindE (liftE (py_in ''hex'' aircraft)) (\<lambda>has_hex.
       if has_hex \<and> 1 \<le> length ICAO_OF_SPECIAL_INTEREST then
         bindE (liftE (py_getitem aircraft ''hex'')) (\<lambda>h.
         let hex = upper (trim e h) in
         bindE (liftE (contains_any (JStr hex) (map fst ICAO_OF_SPECIAL_INTEREST))) (\<lambda>contains_icao.
           if contains_icao then
             bindE (watch_distance e aircraft) (\<lambda>distance.
             bindE (liftE (trimmed_or_unknown e aircraft ''flight'')) (\<lambda>flight.
             bindE (liftE (trimmed_or_unknown e aircraft ''squawk'')) (\<lambda>squawk.
             bindE (send_slack_notification e (JStr hex) (JStr flight) (JStr squawk) distance ''icao'') (\<lambda>sent.
               if sent then
                 (case map_of ICAO_OF_SPECIAL_INTEREST (upper hex) of
                    None \<Rightarrow> raiseE KeyError
                  | Some remarks \<Rightarrow>
                      logging INFO ''Found Flight of Special Interest (hex:%s) in %s km distance. Remarks: %s'')
               else returnE ()))))
           else returnE ()))
       else returnE ())"

definition process_special_interest :: "env \<Rightarrow> json \<Rightarrow> unit action" where
  "process_special_interest e aircraft =
     bindE (special_registration e aircraft) (\<lambda>_. special_icao e aircraft)"

text \<open>\<^verbatim>\<open>field in aircraft and aircraft[field] <= threshold\<close>.\<close>

definition seen_within :: "string \<Rightarrow> json \<Rightarrow> int \<Rightarrow> error + bool" where
  "seen_within field aircraft threshold =
     (case py_in field aircraft of
        Inl err \<Rightarrow> Inl err
      | Inr False \<Rightarrow> Inr False
      | Inr True \<Rightarrow>
          (case py_getitem aircraft field of
             Inl err \<Rightarrow> Inl err
           | Inr age \<Rightarrow> py_le age threshold))"

text \<open>\<^verbatim>\<open>"mlat" in aircraft and "lat" in aircraft["mlat"]\<close>.\<close>

definition has_mlat :: "json \<Rightarrow> error + bool" where
  "has_mlat aircraft =
     (case py_in ''mlat'' aircraft of
        Inl err \<Rightarrow> Inl err
      | Inr False \<Rightarrow> Inr False
      | Inr True \<Rightarrow>
          (case py_getitem aircraft ''mlat'' of
             Inl err \<Rightarrow> Inl err
           | Inr m \<Rightarrow> py_in ''lat'' m))"

text \<open>One round of the loop of \<^verbatim>\<open>get_aircrafts\<close>: \<open>res\<close> is the list built so far.\<close>

definition get_aircrafts_body ::
    "env \<Rightarrow> bool \<Rightarrow> string \<Rightarrow> int \<Rightarrow> json \<Rightarrow> json list \<Rightarrow> json list action" where
  "get_aircrafts_body e pos mode threshold aircraft res =
     (if mode = ''adsb'' then
        (if pos then
           bindE (liftE (seen_within ''seen_pos'' aircraft threshold)) (\<lambda>keep.
             if keep then
               bindE (process_special_interest e aircraft) (\<lambda>_. returnE (res @ [aircraft]))
             else returnE res)
         else
           bindE (liftE (seen_within ''seen'' aircraft threshold)) (\<lambda>keep.
             if keep then returnE (res @ [aircraft]) else returnE res))
      else if mode = ''mlat'' then
        bindE (liftE (has_mlat aircraft)) (\<lambda>keep.
          if keep then returnE (res @ [aircraft]) else returnE res)
      else
        bindE (logging WARNING ''Unknown Mode: %s'') (\<lambda>_. returnE res))"

definition get_aircrafts :: "env \<Rightarrow> bool \<Rightarrow> string \<Rightarrow> int \<Rightarrow> bool \<Rightarrow> aircrafts action" where
  "get_aircrafts e pos mode threshold raw =
     bindE (liftE (check_supported mode [''adsb'', ''mlat''])) (\<lambda>_.
     bindE (download e (PIAWARE_HOST e @ ''/skyaware/data/aircraft.json'') None None True) (\<lambda>r.
     bindE (case r of None \<Rightarrow> returnE (JObj []) | Some resp \<Rightarrow> liftE (response_json resp)) (\<lambda>json.
     bindE (liftE (py_in ''aircraft'' json)) (\<lambda>has_aircraft.
       if has_aircraft \<and> raw then returnE (Raw json)
       else
         bindE (if has_aircraft then
                  bindE (liftE (py_getitem json ''aircraft'')) (\<lambda>listed.
                  bindE (liftE (py_iter listed)) (\<lambda>acs.
                  forE acs [] (get_aircrafts_body e pos mode threshold)))
                else returnE [])
           (\<lambda>res.
         bindE (logging INFO ''Found %s total Flights (Position: %s, Mode: %s, Threshold: %ss)'') (\<lambda>_.
         returnE (Count (length res))))))))"


section \<open>Emergency scan\<close>

text \<open>\<^verbatim>\<open>in\<close> and subscript applied to what \<^verbatim>\<open>get_aircrafts\<close> returned: a count is an
  \<^verbatim>\<open>int\<close>, neither iterable nor subscriptable.\<close>

definition aircrafts_in :: "string \<Rightarrow> aircrafts \<Rightarrow> error + bool" where
  "aircrafts_in k a = (case a of Count n \<Rightarrow> Inl TypeError | Raw j \<Rightarrow> py_in k j)"

definition aircrafts_getitem :: "aircrafts \<Rightarrow> string \<Rightarrow> error + json" where
  "aircrafts_getitem a k = (case a of Count n \<Rightarrow> Inl TypeError | Raw j \<Rightarrow> py_getitem j k)"

text \<open>Decimal digits of an integer, as an f-string prints it.\<close>

function str_nat :: "nat \<Rightarrow> string" where
  "str_nat n =
     (if n < 10 then [''0123456789'' ! n]
      else str_nat (n div 10) @ [''0123456789'' ! (n mod 10)])"
  by pat_completeness auto
termination
  by (relation "measure id") auto

declare str_nat.simps [simp del]

definition str_int :: "int \<Rightarrow> string" where
  "str_int i = (if i < 0 then CHR ''-'' # str_nat (nat (- i)) else str_nat (nat i))"

text \<open>The result of \<^verbatim>\<open>__has_emergency\<close>, annotated \<^verbatim>\<open>Union[int, str]\<close>.\<close>

datatype emergency_result = Slug string | Cnt int

text \<open>One round of the loop of \<^verbatim>\<open>__has_emergency\<close>, from the count so far to the next.\<close>

definition has_emergency_body :: "env \<Rightarrow> Position \<Rightarrow> json \<Rightarrow> int \<Rightarrow> int action" where
  "has_emergency_body e origin aircraft emergency =
     bindE (liftE (py_in ''squawk'' aircraft)) (\<lambda>has_squawk.
       if has_squawk then
         bindE (liftE (py_getitem aircraft ''squawk'')) (\<lambda>squawk.
         bindE (liftE (contains_any squawk (map fst EMERGENCY_SQUAWK))) (\<lambda>contains.
           if contains then
             bindE (liftE (trimmed_or_unknown e aircraft ''flight'')) (\<lambda>flight.
             bindE (liftE (py_issubset [''lat'', ''lon''] aircraft)) (\<lambda>both.
             bindE (if both then
                      bindE (liftE (py_getitem aircraft ''lat'')) (\<lambda>lat.
                      bindE (liftE (py_getitem aircraft ''lon'')) (\<lambda>lon.
                      bindE (liftE (haversine_distance e origin \<lparr>latitude = lat, longitude = lon\<rparr> earth_radius)) (\<lambda>d.
                      bindE (liftE (to_kilometers e (PyFloat d) 2)) (\<lambda>km.
                      returnE (OfFloat km)))))
                    else returnE (OfJson (JStr ''unknown''))) (\<lambda>aircraft_distance.
             bindE (liftE (py_getitem aircraft ''hex'')) (\<lambda>hex.
             bindE (send_slack_notification e hex (JStr flight) squawk aircraft_distance ''emergency'') (\<lambda>notification_sent.
             bindE (logging WARNING ''Aircraft %s (Callsign %s) with ICAO Emergency Squawk %s found in %s km distance (Notification sent %s)'') (\<lambda>_.
             returnE (emergency + 1)))))))
           else returnE emergency))
       else returnE emergency)"

definition has_emergency :: "env \<Rightarrow> string \<Rightarrow> string \<Rightarrow> emergency_result action" where
  "has_emergency e current_status mode =
     bindE (liftE (check_supported mode [''slug'', ''count''])) (\<lambda>_.
     bindE (get_aircrafts e True ''adsb'' 120 True) (\<lambda>aircrafts.
     bindE (liftE (aircrafts_in ''aircraft'' aircrafts)) (\<lambda>has_aircraft.
     bindE (if has_aircraft then
              bindE (get_receiver_position e) (\<lambda>origin.
              bindE (liftE (aircrafts_getitem aircrafts ''aircraft'')) (\<lambda>listed.
              bindE (liftE (py_iter listed)) (\<lambda>acs.
              forE acs 0 (has_emergency_body e origin))))
            else returnE 666) (\<lambda>emergency.
       if mode = ''slug'' then
         (if 1 \<le> emergency
          then returnE (Slug (''!!! SQUAWK 7x00 (Count: '' @ str_int emergency @ '') !!!''))
          else returnE (Slug current_status))
       else returnE (Cnt emergency)))))"

section \<open>Range of the aircraft in view\<close>

text \<open>\<^verbatim>\<open>Helpers.ucfirst\<close>: \<^verbatim>\<open>string[0].upper() + string[1:]\<close>.\<close>

definition ucfirst :: "json \<Rightarrow> error + string" where
  "ucfirst v =
     (case v of
        JStr s \<Rightarrow> (case s of [] \<Rightarrow> Inl IndexError | c # cs \<Rightarrow> Inr (upper_char c # cs))
      | JArr xs \<Rightarrow>
          (case xs of
             [] \<Rightarrow> Inl IndexError
           | x # rest \<Rightarrow> (case x of JStr s \<Rightarrow> Inl TypeError | _ \<Rightarrow> Inl AttributeError))
      | JObj kvs \<Rightarrow> Inl KeyError
      | _ \<Rightarrow> Inl TypeError)"

text \<open>One round of the loop of \<^verbatim>\<open>Helpers.distance\<close>, from the range so far to the next.\<close>

definition distance_body :: "env \<Rightarrow> Position \<Rightarrow> string \<Rightarrow> int \<Rightarrow> json \<Rightarrow> pynum \<Rightarrow> pynum action" where
  "distance_body e origin mode threshold aircraft aircraft_range =
     bindE (liftE (py_issubset [''lat'', ''lon'', ''seen_pos''] aircraft)) (\<lambda>located.
       if located then
         bindE (liftE (py_getitem aircraft ''seen_pos'')) (\<lambda>seen_pos.
         bindE (liftE (py_le seen_pos threshold)) (\<lambda>recent.
           if recent then
             bindE (liftE (py_getitem aircraft ''lat'')) (\<lambda>lat.
             bindE (liftE (py_getitem aircraft ''lon'')) (\<lambda>lon.
             bindE (liftE (haversine_distance e origin \<lparr>latitude = lat, longitude = lon\<rparr> earth_radius)) (\<lambda>d.
               if mode = ''max'' then
                 (if pf_less (exact_value aircraft_range) d then returnE (PyFloat d)
                  else returnE aircraft_range)
               else
                 (if pf_less d (exact_value aircraft_range) then returnE (PyFloat d)
                  else returnE aircraft_range))))
           else returnE aircraft_range))
       else returnE aircraft_range)"

text \<open>\<^verbatim>\<open>Helpers.distance\<close>. The range starts from the \<^verbatim>\<open>int\<close> 0 or \<^verbatim>\<open>sys.maxsize\<close>; the
  log record of the result converts it to kilometers before the function returns.\<close>

definition distance :: "env \<Rightarrow> Position \<Rightarrow> string \<Rightarrow> int \<Rightarrow> pynum action" where
  "distance e origin mode threshold =
     bindE (liftE (check_supported mode [''min'', ''max''])) (\<lambda>_.
     bindE (get_aircrafts e True ''adsb'' 120 True) (\<lambda>aircrafts.
     bindE (returnE (if mode = ''max'' then PyInt 0 else PyInt (sys_maxsize e))) (\<lambda>aircraft_range.
     bindE (liftE (aircrafts_getitem aircrafts ''aircraft'')) (\<lambda>listed.
     bindE (liftE (py_iter listed)) (\<lambda>acs.
     bindE (forE acs aircraft_range (distance_body e origin mode threshold)) (\<lambda>aircraft_range'.
     bindE (liftE (ucfirst (JStr mode))) (\<lambda>_.
     bindE (liftE (to_kilometers e aircraft_range' 2)) (\<lambda>_.
     bindE (logging INFO ''%s Aircraft Distance: %s km'') (\<lambda>_.
     returnE aircraft_range')))))))))"

section \<open>Display, shutdown and the refresh cycle\<close>

definition hw_op :: "env \<Rightarrow> hw_event \<Rightarrow> unit action" where
  "hw_op e ev s =
     (if hw_fault e (length (hw s)) then (Inl IOError, s\<lparr>hw := hw s @ [Fault]\<rparr>)
      else (Inr (), s\<lparr>hw := hw s @ [ev]\<rparr>))"

text \<open>\<^verbatim>\<open>PiAware.__clear\<close>.\<close>

definition clear :: "env \<Rightarrow> bool \<Rightarrow> bool \<Rightarrow> string \<Rightarrow> unit action" where
  "clear e clr sleep display_color =
     bindE (hw_op e EpdInit) (\<lambda>_.
     bindE (if clr then
              (if display_color \<in> set [''0x00'', ''0xFF''] then hw_op e (EpdClear display_color)
               else bindE (logging WARNING ''Got invalid Display Color: '%s' - Resetting to '0xFF'.'') (\<lambda>_.
                    hw_op e (EpdClear ''0xFF'')))
            else returnE ()) (\<lambda>_.
     if sleep then hw_op e EpdSleep else returnE ()))"

text \<open>\<^verbatim>\<open>signal.Signals(n).name\<close> on Linux; \<open>None\<close> where the enumeration has no member and
  the constructor raises \<^verbatim>\<open>ValueError\<close>.\<close>

definition Signals :: "int \<Rightarrow> string option" where
  "Signals n =
     map_of
       [(1, ''SIGHUP''), (2, ''SIGINT''), (3, ''SIGQUIT''), (4, ''SIGILL''), (5, ''SIGTRAP''),
        (6, ''SIGABRT''), (7, ''SIGBUS''), (8, ''SIGFPE''), (9, ''SIGKILL''), (10, ''SIGUSR1''),
        (11, ''SIGSEGV''), (12, ''SIGUSR2''), (13, ''SIGPIPE''), (14, ''SIGALRM''),
        (15, ''SIGTERM''), (16, ''SIGSTKFLT''), (17, ''SIGCHLD''), (18, ''SIGCONT''),
        (19, ''SIGSTOP''), (20, ''SIGTSTP''), (21, ''SIGTTIN''), (22, ''SIGTTOU''),
        (23, ''SIGURG''), (24, ''SIGXCPU''), (25, ''SIGXFSZ''), (26, ''SIGVTALRM''),
        (27, ''SIGPROF''), (28, ''SIGWINCH''), (29, ''SIGIO''), (30, ''SIGPWR''),
        (31, ''SIGSYS''), (34, ''SIGRTMIN''), (64, ''SIGRTMAX'')] n"

text \<open>\<^verbatim>\<open>PiAware.__shutdown\<close>: returns only for \<^verbatim>\<open>SIGHUP\<close>; otherwise it ends in
  \<^verbatim>\<open>sys.exit(0)\<close>.\<close>

definition shutdown :: "env \<Rightarrow> int \<Rightarrow> unit action" where
  "shutdown e signal_number =
     (case Signals signal_number of
        None \<Rightarrow> raiseE ValueError
      | Some signal_name \<Rightarrow>
          if signal_name = ''SIGHUP'' then logging INFO ''Received %s, ignoring.''
          else
            bindE (logging INFO ''Shutting down on Signal %s (%s).'') (\<lambda>_.
            bindE (clear e True True ''0xFF'') (\<lambda>_.
            bindE (hw_op e GpioCleanup) (\<lambda>_.
            bindE (hw_op e GpioSetmode) (\<lambda>_.
            bindE (logging INFO ''Shutdown on Signal %s complete.'') (\<lambda>_.
            raiseE SystemExit))))))"

text \<open>\<^verbatim>\<open>Helpers.get_local_ip\<close>.\<close>

definition get_local_ip :: "env \<Rightarrow> string" where
  "get_local_ip e = (case sockname e of None \<Rightarrow> ''127.0.0.1'' | Some ip \<Rightarrow> ip)"

text \<open>\<^verbatim>\<open>PiAware.get_fr24_status\<close>. The backoff factor is the float \<^verbatim>\<open>0.1\<close>, written by its
  exact value.\<close>

definition get_fr24_status :: "env \<Rightarrow> string action" where
  "get_fr24_status e =
     bindE (download e (FLIGHTRADAR_HOST e @ ''/monitor.json'') (Some 2) (Some (Finite (3602879701896397 / 36028797018963968))) True) (\<lambda>r.
     bindE (case r of None \<Rightarrow> returnE (JObj []) | Some resp \<Rightarrow> liftE (response_json resp)) (\<lambda>fr24.
     bindE (liftE (py_in ''feed_status'' fr24)) (\<lambda>has_feed_status.
     bindE (if has_feed_status then
              bindE (liftE (py_getitem fr24 ''feed_status'')) (\<lambda>feed_status.
                if feed_status = JStr ''connected'' then
                  bindE (liftE (py_getitem fr24 ''feed_current_mode'')) (\<lambda>feed_mode.
                  returnE (''Connected via '' @ str_of e feed_mode))
                else liftE (ucfirst feed_status))
            else returnE ''unknown'') (\<lambda>status.
     bindE (logging INFO ''Flightradar24 Status: %s'') (\<lambda>_.
     returnE status)))))"

text \<open>One of the five status lines of \<^verbatim>\<open>refresh\<close>: the converted field when the key is
  there, else the fallback text and the error flag.\<close>

definition status_line ::
    "json \<Rightarrow> string \<Rightarrow> (json \<Rightarrow> error + 'a) \<Rightarrow> 'a \<Rightarrow> error + (bool \<times> 'a)" where
  "status_line status key conv fallback =
     (case py_in key status of
        Inl err \<Rightarrow> Inl err
      | Inr False \<Rightarrow> Inr (True, fallback)
      | Inr True \<Rightarrow>
          (case py_getitem status key of
             Inl err \<Rightarrow> Inl err
           | Inr v \<Rightarrow> (case conv v of Inl err \<Rightarrow> Inl err | Inr x \<Rightarrow> Inr (False, x))))"

definition blank_screen :: screen where
  "blank_screen =
     \<lparr>scr_status_slug = [], scr_status_time = [], scr_status_piaware = JNull,
      scr_status_gps = JNull, scr_status_radio = JNull,
      scr_count_all = Count 0, scr_count_pos = Count 0, scr_count_mlat = Count 0,
      scr_min_range = Finite 0, scr_max_range = Finite 0, scr_uptime = [],
      scr_cpu_load = JNull, scr_cpu_temp = JNull, scr_cycle = 0, scr_local_ip = []\<rparr>"

text \<open>
  \<^verbatim>\<open>refresh\<close>, in the order of the source. First the status document, its five lines
  and the emergency scan, all before the display is touched.
\<close>

definition refresh_status :: "env \<Rightarrow> (json \<times> screen) action" where
  "refresh_status e =
     bindE (get_status e) (\<lambda>status.
     bindE (if bool_from_env e ''ENABLE_FR24''
            then bindE (get_fr24_status e) (\<lambda>fr24. returnE (''OK, fr24: '' @ fr24))
            else returnE ''OK'') (\<lambda>status_slug.
     bindE (liftE (status_line status ''system_uptime'' (timedelta_str e) ''Failed API Call'')) (\<lambda>uptime.
     bindE (liftE (status_line status ''time'' (strftime_ms e) ''!!! Failed to get System Time'')) (\<lambda>status_time.
     bindE (liftE (status_line status ''gps'' (\<lambda>v. py_getitem v ''message'')
                     (JStr ''!!! Failed to get GPS Status''))) (\<lambda>status_gps.
     bindE (liftE (status_line status ''radio'' (\<lambda>v. py_getitem v ''message'')
                     (JStr ''!!! Failed to get Radio Status''))) (\<lambda>status_radio.
     bindE (liftE (status_line status ''piaware'' (\<lambda>v. py_getitem v ''message'')
                     (JStr ''!!! Failed to get PiAware Status''))) (\<lambda>status_piaware.
     bindE (has_emergency e
              (if fst uptime \<or> fst status_time \<or> fst status_gps \<or> fst status_radio \<or> fst status_piaware
               then ''NEEDS ATTENTION'' else status_slug)
              ''slug'') (\<lambda>slug.
     returnE (status,
       blank_screen\<lparr>
         scr_status_slug := (case slug of Slug s \<Rightarrow> s | Cnt n \<Rightarrow> str_int n),
         scr_status_time := snd status_time,
         scr_status_piaware := snd status_piaware,
         scr_status_gps := snd status_gps,
         scr_status_radio := snd status_radio,
         scr_uptime := snd uptime\<rparr>)))))))))"

text \<open>Then, after the display is initialised, the aircraft counters, the two ranges and
  the lines of the operating system.\<close>

definition refresh_aircraft :: "env \<Rightarrow> int \<Rightarrow> json \<Rightarrow> screen \<Rightarrow> screen action" where
  "refresh_aircraft e cycle status canvas =
     bindE (get_receiver_position e) (\<lambda>origin.
     bindE (get_aircrafts e False ''adsb'' 120 False) (\<lambda>count_all.
     bindE (get_aircrafts e True ''adsb'' 120 False) (\<lambda>count_pos.
     bindE (get_aircrafts e True ''mlat'' 120 False) (\<lambda>count_mlat.
     bindE (distance e origin ''min'' 120) (\<lambda>min_range.
     bindE (liftE (to_kilometers e min_range 1)) (\<lambda>min_range_km.
     bindE (distance e origin ''max'' 120) (\<lambda>max_range.
     bindE (liftE (to_kilometers e max_range 1)) (\<lambda>max_range_km.
     bindE (liftE (case py_in ''cpu_temp_celcius'' status of
                     Inl err \<Rightarrow> Inl err
                   | Inr False \<Rightarrow> Inr (JStr ''-273.15'')
                   | Inr True \<Rightarrow>
                       (case py_getitem status ''cpu_temp_celcius'' of
                          Inl err \<Rightarrow> Inl err
                        | Inr v \<Rightarrow>
                            (case py_number v of
                               None \<Rightarrow> Inl TypeError
                             | Some x \<Rightarrow>
                                 bindR (f_round_number (fl e) x 2) (\<lambda>y. Inr (JNum y)))))) (\<lambda>status_temp.
     bindE (liftE (case py_in ''cpu_load_percent'' status of
                     Inl err \<Rightarrow> Inl err
                   | Inr False \<Rightarrow>
                       (case cpu_count e of
                          None \<Rightarrow> Inl TypeError
                        | Some n \<Rightarrow> Inr (JNum (of_int (n * 100))))
                   | Inr True \<Rightarrow> py_getitem status ''cpu_load_percent'')) (\<lambda>status_load.
     returnE (canvas\<lparr>
       scr_count_all := count_all,
       scr_count_pos := count_pos,
       scr_count_mlat := count_mlat,
       scr_min_range := min_range_km,
       scr_max_range := max_range_km,
       scr_cpu_load := status_load,
       scr_cpu_temp := status_temp,
       scr_cycle := cycle,
       scr_local_ip := get_local_ip e\<rparr>)))))))))))"

text \<open>The body of the \<^verbatim>\<open>try\<close>: the display is cleared only when \<^verbatim>\<open>cycle == 1\<close>.\<close>

definition refresh_body :: "env \<Rightarrow> int \<Rightarrow> int action" where
  "refresh_body e cycle =
     bindE (refresh_status e) (\<lambda>(status, canvas).
     bindE (returnE (cycle = 1)) (\<lambda>clear_display.
     bindE (clear e clear_display False ''0xFF'') (\<lambda>_.
     bindE (logging DEBUG ''e-Paper Display is %sx%s (Height x Width)'') (\<lambda>_.
     bindE (refresh_aircraft e cycle status canvas) (\<lambda>ep_image.
     bindE (hw_op e (EpdDisplay ep_image)) (\<lambda>_.
     bindE (hw_op e EpdSleep) (\<lambda>_.
     bindE (if RUNNING_IN_DOCKER e then returnE () else hw_op e SaveImage) (\<lambda>_.
     bindE (returnE (cycle + 1)) (\<lambda>new_cycle.
     bindE (logging INFO ''Refresh cycle %s complete after %ss'') (\<lambda>_.
     returnE new_cycle))))))))))"

definition is_ioerror :: "env \<Rightarrow> error \<Rightarrow> bool" where
  "is_ioerror e err = (err = IOError \<or> (err = JSONDecodeError \<and> json_error_is_ioerror e))"

text \<open>\<^verbatim>\<open>PiAware.refresh\<close>: the new cycle number, or \<open>None\<close> when the handler of
  \<^verbatim>\<open>IOError\<close> falls through.\<close>

definition refresh :: "env \<Rightarrow> int \<Rightarrow> int option action" where
  "refresh e cycle s =
     (case refresh_body e cycle s of
        (Inr new_cycle, s') \<Rightarrow> (Inr (Some new_cycle), s')
      | (Inl err, s') \<Rightarrow>
          if is_ioerror e err then
            bindE (logging ERROR ''%s'') (\<lambda>_.
            bindE (shutdown e 15) (\<lambda>_.
            returnE None)) s'
          else (Inl err, s'))"

section \<open>Interrupts and the processing loop\<close>

text \<open>\<^verbatim>\<open>PiAware.__process_interrupt\<close>: pin 13 runs \<^verbatim>\<open>refresh(cycle=0)\<close> and drops what it
  returns.\<close>

definition process_interrupt :: "env \<Rightarrow> int \<Rightarrow> unit action" where
  "process_interrupt e channel =
     (if channel = 5 then
        bindE (logging INFO ''Received Event on Pin %s - Clearing Display (Black).'') (\<lambda>_.
        clear e True False ''0x00'')
      else if channel = 6 then
        bindE (logging INFO ''Received Event on Pin %s - Clearing Display (White).'') (\<lambda>_.
        clear e True False ''0xFF'')
      else if channel = 13 then
        bindE (logging INFO ''Received Event on Pin %s - Executing Refresh.'') (\<lambda>_.
        bindE (refresh e 0) (\<lambda>_. returnE ()))
      else if channel = 19 then
        bindE (logging INFO ''Received Event on Pin %s - Executing Shutdown.'') (\<lambda>_.
        shutdown e 15)
      else raiseE ValueError)"

text \<open>The inner loop of \<^verbatim>\<open>process\<close>: \<open>sleepy_display\<close> rounds of one second, a log record
  every \<open>sleepy_updates\<close> rounds.\<close>

function sleep_loop :: "nat \<Rightarrow> nat \<Rightarrow> nat \<Rightarrow> unit action" where
  "sleep_loop i sleepy_display sleepy_updates =
     (if i < sleepy_display then
        bindE (if Suc i mod sleepy_updates = 0
               then logging INFO ''Slept %s/%s seconds after refresh cycle %s''
               else returnE ()) (\<lambda>_.
        sleep_loop (Suc i) sleepy_display sleepy_updates)
      else returnE ())"
  by pat_completeness auto
termination
  by (relation "measure (\<lambda>(i, sleepy_display, sleepy_updates). sleepy_display - i)") auto

declare sleep_loop.simps [simp del]

text \<open>One pass of the outer loop of \<^verbatim>\<open>process\<close>, started with the loop's variable
  \<open>cycle\<close>: the result is the value the variable holds when the pass ends.\<close>

definition process_iteration :: "env \<Rightarrow> int \<Rightarrow> int option action" where
  "process_iteration e cycle =
     bindE (logging INFO ''Starting Refresh Cycle %s'') (\<lambda>_.
     bindE (refresh e cycle) (\<lambda>cycle'.
     bindE (logging INFO ''Sleeping for %s seconds after refresh cycle %s (Ping every %ss)'') (\<lambda>_.
     bindE (sleep_loop 0 300 30) (\<lambda>_.
     returnE cycle'))))"


section \<open>A laboratory environment\<close>

text \<open>
  A concrete world for running the definitions: no environment variables (so the
  defaults of the module constants apply), a parser that knows \<^verbatim>\<open>http://\<close> URLs, the
  two conversions at the defaults they are applied to, a Slack transport that
  acknowledges, hardware that never fails, a 64-bit \<^verbatim>\<open>sys.maxsize\<close>, and an HTTP
  transport given as the parameter \<open>net\<close>.

  Its float library is exact arithmetic on finite values, with the results of a 64-bit
  CPython written in at the arguments the runs below reach: \<^verbatim>\<open>float(sys.maxsize)\<close> is
  \<open>2\<^sup>6\<^sup>3\<close>, \<open>2\<^sup>6\<^sup>3 / 1000\<close> is \<^verbatim>\<open>9223372036854776.0\<close>, and rounding to one or two
  decimals leaves the values rounded there (\<^verbatim>\<open>0.0\<close>, \<^verbatim>\<open>9223372036854776.0\<close> and
  \<^verbatim>\<open>48.5\<close>) as they are.
\<close>

definition lab_arith :: "(real \<Rightarrow> real \<Rightarrow> real) \<Rightarrow> pyfloat \<Rightarrow> pyfloat \<Rightarrow> pyfloat" where
  "lab_arith f a b =
     (case a of
        Finite x \<Rightarrow> (case b of Finite y \<Rightarrow> Finite (f x y) | _ \<Rightarrow> NaN)
      | _ \<Rightarrow> NaN)"

definition lab_math :: "(real \<Rightarrow> bool) \<Rightarrow> (real \<Rightarrow> real) \<Rightarrow> pyfloat \<Rightarrow> error + pyfloat" where
  "lab_math ok f a =
     (case a of
        Finite x \<Rightarrow> if ok x then Inr (Finite (f x)) else Inl ValueError
      | _ \<Rightarrow> Inl ValueError)"

definition lab_float :: float_lib where
  "lab_float =
     \<lparr>f_radians = (\<lambda>x. Inr (Finite (x * pi / 180))),
      f_float = (\<lambda>n. Inr (Finite (if n = 9223372036854775807 then 9223372036854775808
                                     else of_int n))),
      f_add = lab_arith (\<lambda>x y. x + y),
      f_sub = lab_arith (\<lambda>x y. x - y),
      f_mul = lab_arith (\<lambda>x y. x * y),
      f_div = (\<lambda>a b. if a = Finite 9223372036854775808 \<and> b = Finite 1000
                       then Finite 9223372036854776
                       else lab_arith (\<lambda>x y. x / y) a b),
      f_square = lab_math (\<lambda>x. True) (\<lambda>x. x * x),
      f_sin = lab_math (\<lambda>x. True) sin,
      f_cos = lab_math (\<lambda>x. True) cos,
      f_sqrt = lab_math (\<lambda>x. 0 \<le> x) sqrt,
      f_asin = lab_math (\<lambda>x. - 1 \<le> x \<and> x \<le> 1) arcsin,
      f_round = (\<lambda>a n. Inr a),
      f_round_number = (\<lambda>x n. Inr x),
      f_str = (\<lambda>a. ''?'')\<rparr>"

definition lab_urlparse :: "string \<Rightarrow> url_parts option" where
  "lab_urlparse u =
     (if take 7 u = ''http://''
      then Some \<lparr>scheme = ''http'', netloc = takeWhile (\<lambda>c. c \<noteq> CHR ''/'') (drop 7 u)\<rparr>
      else Some \<lparr>scheme = [], netloc = []\<rparr>)"

definition lab_env :: "(nat \<Rightarrow> request \<Rightarrow> transfer) \<Rightarrow> env" where
  "lab_env net =
     \<lparr>getenv = (\<lambda>name. None),
      docker_env_exists = False,
      sys_maxsize = 9223372036854775807,
      urlparse = lab_urlparse,
      py_int = (\<lambda>s. if s = ''10'' then Some 10 else None),
      py_float = (\<lambda>s. if s = ''1.0'' then Some (Finite 1) else None),
      py_str = (\<lambda>v. ''?''),
      session_get = net,
      chat_postMessage = (\<lambda>n m. SlackAnswered True),
      hw_fault = (\<lambda>n. False),
      timedelta_str = (\<lambda>v. Inr ''0:00:00''),
      strftime_ms = (\<lambda>v. Inr ''01.01.1970, 00:00:00''),
      cpu_count = Some 4,
      sockname = None,
      json_error_is_ioerror = True,
      fl = lab_float\<rparr>"

text \<open>The same world with Slack credentials configured.\<close>

definition lab_env_slack :: "(nat \<Rightarrow> request \<Rightarrow> transfer) \<Rightarrow> env" where
  "lab_env_slack net =
     (lab_env net)\<lparr>getenv :=
        (\<lambda>name. if name = ''SLACK_BOT_TOKEN'' then Some ''xoxb-1''
                 else if name = ''SLACK_CHANNEL'' then Some ''alerts'' else None)\<rparr>"

text \<open>The state of a fresh process, before \<^verbatim>\<open>setup\<close> has cached the receiver position.\<close>

definition boot :: state where
  "boot = \<lparr>requests = [], slack_posts = [], logs = [], hw = [], receiver_position = None\<rparr>"

text \<open>Transports: one on which every connection fails, one that answers every request
  with status 200 and the given body, one that answers with the given status.\<close>

definition net_down :: "nat \<Rightarrow> request \<Rightarrow> transfer" where
  "net_down n rq = Raised"

definition net_body :: "body \<Rightarrow> nat \<Rightarrow> request \<Rightarrow> transfer" where
  "net_body b n rq = Answered \<lparr>status_code = 200, content = b\<rparr>"

text \<open>An empty sky: the aircraft document lists no aircraft.\<close>

definition empty_sky :: json where
  "empty_sky = JObj [(''now'', JNum 1), (''aircraft'', JArr [])]"


text \<open>A site that serves the three documents of PiAware under their URLs and nothing
  else: a status document, the receiver's own position, and the sky given as the
  parameter.\<close>

definition lab_status :: json where
  "lab_status =
     JObj [(''system_uptime'', JNum 0), (''time'', JNum 0),
           (''gps'', JObj [(''message'', JStr ''GPS 3D fix'')]),
           (''radio'', JObj [(''message'', JStr ''Received Mode S data recently'')]),
           (''piaware'', JObj [(''message'', JStr ''PiAware 8.2 is running'')]),
           (''cpu_temp_celcius'', JNum (97 / 2)), (''cpu_load_percent'', JNum 12)]"

definition lab_receiver :: json where
  "lab_receiver = JObj [(''version'', JStr ''8.2''), (''lat'', JNum 50), (''lon'', JNum 8)]"

definition lab_site :: "json \<Rightarrow> nat \<Rightarrow> request \<Rightarrow> transfer" where
  "lab_site sky n rq =
     (if req_url rq = ''http://127.0.0.1:8080/status.json''
        then Answered \<lparr>status_code = 200, content = Parsed lab_status\<rparr>
      else if req_url rq = ''http://127.0.0.1:8080/skyaware/data/receiver.json''
        then Answered \<lparr>status_code = 200, content = Parsed lab_receiver\<rparr>
      else if req_url rq = ''http://127.0.0.1:8080/skyaware/data/aircraft.json''
        then Answered \<lparr>status_code = 200, content = Parsed sky\<rparr>
      else Answered \<lparr>status_code = 404, content = Malformed\<rparr>)"

text \<open>A sky with two aircraft, none of them in view: the first reports no position,
  the position of the second is 300 seconds old.\<close>

definition far_aircraft :: "json list" where
  "far_aircraft =
     [JObj [(''hex'', JStr ''3c6444''), (''flight'', JStr ''DLH400  ''), (''seen'', JNum 2)],
      JObj [(''hex'', JStr ''4b1805''), (''lat'', JNum 50), (''lon'', JNum 8),
            (''seen_pos'', JNum 300), (''seen'', JNum 1)]]"

definition far_sky :: json where
  "far_sky = JObj [(''now'', JNum 1), (''aircraft'', JArr far_aircraft)]"

text \<open>A sky with three aircraft: one heard half a second ago whose position is exactly
  120 seconds old, one heard 121 seconds ago without a position, and one without
  either age.\<close>

definition lab_aircraft :: "json list" where
  "lab_aircraft =
     [JObj [(''hex'', JStr ''3c6444''), (''flight'', JStr ''DLH400  ''), (''lat'', JNum 50),
            (''lon'', JNum 9), (''seen_pos'', JNum 120), (''seen'', JNum (1 / 2))],
      JObj [(''hex'', JStr ''4b1805''), (''seen'', JNum 121)],
      JObj [(''hex'', JStr ''3e854f''), (''squawk'', JStr ''1000'')]]"

definition near_sky :: json where
  "near_sky = JObj [(''now'', JNum 1), (''aircraft'', JArr lab_aircraft)]"

section \<open>The vocabulary of the properties\<close>

text \<open>The value of a key of an aircraft record, if the record is a dict and has it.\<close>

definition field :: "json \<Rightarrow> string \<Rightarrow> json option" where
  "field a k = (case a of JObj kvs \<Rightarrow> map_of kvs k | _ \<Rightarrow> None)"

definition numeric_if_present :: "json \<Rightarrow> string \<Rightarrow> bool" where
  "numeric_if_present a k = (case field a k of None \<Rightarrow> True | Some v \<Rightarrow> py_number v \<noteq> None)"

text \<open>An aircraft record as dump1090 writes it: a dict whose ages, where it has them,
  are numbers.\<close>

definition aircraft_record :: "json \<Rightarrow> bool" where
  "aircraft_record a =
     (case a of
        JObj kvs \<Rightarrow> numeric_if_present a ''seen'' \<and> numeric_if_present a ''seen_pos''
      | _ \<Rightarrow> False)"

text \<open>The age under key \<open>k\<close> is there and at most the threshold.\<close>

definition age_within :: "string \<Rightarrow> int \<Rightarrow> json \<Rightarrow> bool" where
  "age_within k threshold a =
     (case field a k of
        None \<Rightarrow> False
      | Some v \<Rightarrow> (case py_number v of None \<Rightarrow> False | Some x \<Rightarrow> x \<le> of_int threshold))"

text \<open>An aircraft in view of the range computation: coordinates and a position age
  within the threshold.\<close>

definition in_view :: "int \<Rightarrow> json \<Rightarrow> bool" where
  "in_view threshold a =
     (field a ''lat'' \<noteq> None \<and> field a ''lon'' \<noteq> None \<and> age_within ''seen_pos'' threshold a)"

text \<open>The identifier of the record, trimmed and in upper case, is a key of the table
  of identifiers of special interest.\<close>

definition on_watchlist :: "env \<Rightarrow> json \<Rightarrow> bool" where
  "on_watchlist e a =
     (case field a ''hex'' of
        None \<Rightarrow> False
      | Some h \<Rightarrow>
          list_ex (\<lambda>element. upper element = upper (upper (trim e h)))
            (map fst ICAO_OF_SPECIAL_INTEREST))"


text \<open>An action that leaves the hardware and the cached receiver position alone.\<close>

definition quiet :: "'a action \<Rightarrow> bool" where
  "quiet m = (\<forall>s. hw (snd (m s)) = hw s \<and> receiver_position (snd (m s)) = receiver_position s)"

named_theorems quiet_intros

section \<open>Evaluation rules\<close>

lemmas monad_simps =
  bindE_def returnE_def raiseE_def liftE_def logging_def cached_position_def bindR_def

lemmas py_simps =
  py_in_def py_getitem_def py_iter_def py_number_def py_le_def py_issubset_def unhashable_def

lemmas lab_simps =
  lab_env_def lab_env_slack_def lab_urlparse_def boot_def net_down_def net_body_def empty_sky_def
  lab_float_def lab_arith_def lab_math_def
  PIAWARE_HOST_def PIAWARE_RETRIES_def PIAWARE_BACKOFF_def FLIGHTRADAR_HOST_def
  RUNNING_IN_DOCKER_def getenv_default_def

lemmas fetch_simps =
  get_status_def get_receiver_def get_aircrafts_def download_def is_valid_url_def
  response_json_def response_truthy_def check_supported_def

lemmas refresh_simps =
  refresh_def refresh_body_def refresh_status_def refresh_aircraft_def status_line_def
  has_emergency_def has_emergency_body_def aircrafts_in_def aircrafts_getitem_def
  get_receiver_position_def distance_def distance_body_def ucfirst_def clear_def hw_op_def
  bool_from_env_def upper_def lower_def upper_char_def lower_char_def get_local_ip_def
  is_ioerror_def blank_screen_def to_kilometers_def exact_value_def
  get_aircrafts_body_def seen_within_def has_mlat_def

lemmas site_simps = lab_site_def lab_status_def lab_receiver_def far_sky_def far_aircraft_def

lemmas record_simps =
  aircraft_record_def numeric_if_present_def field_def age_within_def in_view_def

section \<open>Frame rules\<close>

text \<open>The fetches, the filter, the scans and the notifications touch neither the
  hardware nor the cached receiver position.\<close>

lemma quietD: "quiet m \<Longrightarrow> m s = (r, s') \<Longrightarrow> hw s' = hw s \<and> receiver_position s' = receiver_position s"
  by (auto simp: quiet_def dest: spec [of _ s])

lemma quiet_returnE [quiet_intros]: "quiet (returnE x)"
  by (simp add: quiet_def returnE_def)

lemma quiet_raiseE [quiet_intros]: "quiet (raiseE err)"
  by (simp add: quiet_def raiseE_def)

lemma quiet_liftE [quiet_intros]: "quiet (liftE r)"
  by (simp add: quiet_def liftE_def)

lemma quiet_logging [quiet_intros]: "quiet (logging l msg)"
  by (simp add: quiet_def logging_def)

lemma quiet_bindE [quiet_intros]:
  assumes "quiet m" and "\<And>x. quiet (f x)"
  shows "quiet (bindE m f)"
proof -
  have "hw (snd (bindE m f s)) = hw s \<and> receiver_position (snd (bindE m f s)) = receiver_position s" for s
  proof (cases "m s")
    case (Pair r s1)
    from quietD [OF assms(1) Pair] have 1: "hw s1 = hw s" "receiver_position s1 = receiver_position s"
      by simp_all
    show ?thesis
    proof (cases r)
      case (Inl err)
      with Pair 1 show ?thesis by (simp add: bindE_def)
    next
      case (Inr x)
      obtain r2 s2 where 2: "f x s1 = (r2, s2)" by (cases "f x s1")
      from quietD [OF assms(2) 2] 1 Pair Inr 2 show ?thesis by (simp add: bindE_def)
    qed
  qed
  then show ?thesis by (simp add: quiet_def)
qed

lemma quiet_forE [quiet_intros]:
  assumes "\<And>x acc. quiet (body x acc)"
  shows "quiet (forE xs acc body)"
  by (induction xs arbitrary: acc) (auto intro!: quiet_intros assms)

lemma quiet_if [quiet_intros]: "(c \<Longrightarrow> quiet a) \<Longrightarrow> (\<not> c \<Longrightarrow> quiet b) \<Longrightarrow> quiet (if c then a else b)"
  by simp

lemma quiet_download [quiet_intros]: "quiet (download e url retry backoff bust)"
  by (simp add: quiet_def download_def Let_def split: option.split transfer.split)

lemma quiet_get_status [quiet_intros]: "quiet (get_status e)"
  unfolding get_status_def by (auto intro!: quiet_intros split: option.split)

lemma quiet_get_receiver [quiet_intros]: "quiet (get_receiver e)"
  unfolding get_receiver_def by (auto intro!: quiet_intros split: option.split)

lemma quiet_cached_position [quiet_intros]: "quiet cached_position"
  by (simp add: quiet_def cached_position_def)

lemma quiet_get_receiver_position [quiet_intros]: "quiet (get_receiver_position e)"
  unfolding get_receiver_position_def by (auto intro!: quiet_intros split: option.split)

lemma quiet_send_slack_notification [quiet_intros]:
  "quiet (send_slack_notification e icao_reg callsign squawk km mode)"
  by (simp add: quiet_def send_slack_notification_def slack_attempt_def Let_def
        split: option.split sum.split prod.split slack_outcome.split)

lemma quiet_watch_distance [quiet_intros]: "quiet (watch_distance e aircraft)"
  unfolding watch_distance_def by (intro quiet_intros)

lemma quiet_special_registration [quiet_intros]: "quiet (special_registration e aircraft)"
  unfolding special_registration_def Let_def by (auto intro!: quiet_intros split: option.split)

lemma quiet_special_icao [quiet_intros]: "quiet (special_icao e aircraft)"
  unfolding special_icao_def Let_def by (auto intro!: quiet_intros split: option.split)

lemma quiet_process_special_interest [quiet_intros]: "quiet (process_special_interest e aircraft)"
  unfolding process_special_interest_def by (intro quiet_intros)

lemma quiet_get_aircrafts_body [quiet_intros]: "quiet (get_aircrafts_body e pos mode threshold aircraft res)"
  unfolding get_aircrafts_body_def by (intro quiet_intros)

lemma quiet_get_aircrafts [quiet_intros]: "quiet (get_aircrafts e pos mode threshold raw)"
  unfolding get_aircrafts_def by (auto intro!: quiet_intros split: option.split)

lemma quiet_has_emergency_body [quiet_intros]: "quiet (has_emergency_body e origin aircraft emergency)"
  unfolding has_emergency_body_def by (intro quiet_intros)

lemma quiet_has_emergency [quiet_intros]: "quiet (has_emergency e current_status mode)"
  unfolding has_emergency_def by (intro quiet_intros)

lemma quiet_distance_body [quiet_intros]: "quiet (distance_body e origin mode threshold aircraft aircraft_range)"
  unfolding distance_body_def by (intro quiet_intros)

lemma quiet_distance [quiet_intros]: "quiet (distance e origin mode threshold)"
  unfolding distance_def by (intro quiet_intros)

lemma quiet_get_fr24_status [quiet_intros]: "quiet (get_fr24_status e)"
  unfolding get_fr24_status_def by (auto intro!: quiet_intros split: option.split)

lemma quiet_refresh_status [quiet_intros]: "quiet (refresh_status e)"
  unfolding refresh_status_def by (intro quiet_intros)

lemma quiet_refresh_aircraft [quiet_intros]: "quiet (refresh_aircraft e cycle status canvas)"
  unfolding refresh_aircraft_def by (intro quiet_intros)



section \<open>What a completed run went through\<close>

lemma bindE_InrE:
  assumes "bindE m f s = (Inr y, s')"
  obtains x s1 where "m s = (Inr x, s1)" and "f x s1 = (Inr y, s')"
  using assms by (auto simp: bindE_def split: prod.splits sum.splits)

lemma hw_op_Inr: "hw_op e ev s = (Inr u, s') \<Longrightarrow> hw s' = hw s @ [ev]"
  by (auto simp: hw_op_def split: if_splits)

lemma clear_Inr:
  assumes "clear e clr False ''0xFF'' s = (Inr u, s')"
  shows "hw s' = hw s @ EpdInit # (if clr then [EpdClear ''0xFF''] else [])"
  using assms unfolding clear_def
  by (auto elim!: bindE_InrE dest!: hw_op_Inr simp: returnE_def split: if_splits)

lemma shutdown_15_raises: "shutdown e 15 s \<noteq> (Inr u, s')"
proof
  assume a: "shutdown e 15 s = (Inr u, s')"
  have "Signals 15 = Some ''SIGTERM''"
    by (simp add: Signals_def)
  with a show False
    unfolding shutdown_def
    by (auto simp: raiseE_def elim!: bindE_InrE)
qed

lemma refresh_Inr:
  assumes "refresh e cycle s = (Inr r, s')"
  obtains n where "r = Some n" and "refresh_body e cycle s = (Inr n, s')"
proof (cases "refresh_body e cycle s")
  case (Pair out s1)
  show ?thesis
  proof (cases out)
    case (Inr n)
    with Pair assms have "r = Some n" "refresh_body e cycle s = (Inr n, s')"
      by (auto simp: refresh_def)
    then show ?thesis by (rule that)
  next
    case (Inl err)
    with Pair assms have False
      by (auto simp: refresh_def returnE_def split: if_splits elim!: bindE_InrE dest: shutdown_15_raises [THEN notE])
    then show ?thesis ..
  qed
qed

lemma refresh_body_Inr:
  assumes "refresh_body e cycle s = (Inr n, s')"
  shows "n = cycle + 1
     \<and> (\<exists>scr. hw s' = hw s @ EpdInit # (if cycle = 1 then [EpdClear ''0xFF''] else [])
                 @ [EpdDisplay scr, EpdSleep] @ (if RUNNING_IN_DOCKER e then [] else [SaveImage]))"
  using assms unfolding refresh_body_def
  apply (elim bindE_InrE)
  apply clarsimp
  apply (elim bindE_InrE)
  apply (auto dest!: quietD [OF quiet_refresh_status] quietD [OF quiet_refresh_aircraft]
                     quietD [OF quiet_logging] clear_Inr hw_op_Inr
              simp: returnE_def split: if_splits)
  done

section \<open>The loop of the aircraft filter\<close>

lemma key_listed: "k \<in> fst ` set kvs \<longleftrightarrow> map_of kvs k \<noteq> None"
proof -
  have "(map_of kvs k = None) = (k \<notin> fst ` set kvs)"
    by (rule map_of_eq_None_iff)
  then show ?thesis
    by (cases "map_of kvs k") simp_all
qed

lemma py_in_obj: "py_in k (JObj kvs) = Inr (map_of kvs k \<noteq> None)"
  by (simp add: py_in_def key_listed)

lemma seen_within_Inr:
  assumes "seen_within k a threshold = Inr keep"
  shows "keep = age_within k threshold a"
proof (cases a)
  case (JObj kvs)
  with assms show ?thesis
    by (auto simp: seen_within_def py_in_obj py_getitem_def py_le_def age_within_def field_def
             split: option.splits if_splits bool.splits)
next
  case (JArr xs)
  with assms show ?thesis
    by (auto simp: seen_within_def py_in_def py_getitem_def age_within_def field_def split: if_splits bool.splits)
next
  case (JStr str)
  with assms show ?thesis
    by (auto simp: seen_within_def py_in_def py_getitem_def age_within_def field_def split: if_splits bool.splits)
qed (use assms in \<open>auto simp: seen_within_def py_in_def\<close>)

lemma seen_within_record:
  assumes "aircraft_record a" and "k = ''seen'' \<or> k = ''seen_pos''"
  shows "seen_within k a threshold = Inr (age_within k threshold a)"
proof -
  from assms(1) obtain kvs where a: "a = JObj kvs"
    by (cases a) (auto simp: aircraft_record_def)
  from assms a have "numeric_if_present (JObj kvs) k"
    by (auto simp: aircraft_record_def)
  then show ?thesis
    unfolding a
    by (auto simp: seen_within_def py_in_obj py_getitem_def py_le_def age_within_def field_def numeric_if_present_def
             split: option.splits bool.splits)
qed

lemma liftE_Inr: "liftE r s = (Inr x, s') \<longleftrightarrow> r = Inr x \<and> s' = s"
  by (auto simp: liftE_def)

lemma get_aircrafts_body_adsb_Inr:
  assumes "get_aircrafts_body e pos ''adsb'' threshold a res s = (Inr res', s')"
  shows "res' = res @ (if age_within (if pos then ''seen_pos'' else ''seen'') threshold a then [a] else [])"
  using assms unfolding get_aircrafts_body_def
  by (auto elim!: bindE_InrE simp: liftE_Inr returnE_def dest!: seen_within_Inr split: if_splits)

lemma adsb_loop_Inr:
  assumes "forE acs res (get_aircrafts_body e pos ''adsb'' threshold) s = (Inr res', s')"
  shows "res' = res @ filter (age_within (if pos then ''seen_pos'' else ''seen'') threshold) acs"
  using assms
proof (induction acs arbitrary: res s)
  case Nil
  then show ?case by (simp add: returnE_def)
next
  case (Cons a acs)
  from Cons.prems obtain res1 s1 where
    1: "get_aircrafts_body e pos ''adsb'' threshold a res s = (Inr res1, s1)" and
    2: "forE acs res1 (get_aircrafts_body e pos ''adsb'' threshold) s1 = (Inr res', s')"
    by (auto elim!: bindE_InrE)
  from get_aircrafts_body_adsb_Inr [OF 1] Cons.IH [OF 2] show ?case
    by simp
qed

lemma adsb_loop_without_position:
  assumes "list_all aircraft_record acs"
  shows "forE acs res (get_aircrafts_body e False ''adsb'' threshold) s
           = (Inr (res @ filter (age_within ''seen'' threshold) acs), s)"
  using assms
proof (induction acs arbitrary: res)
  case Nil
  then show ?case by (simp add: returnE_def)
next
  case (Cons a acs)
  then have "seen_within ''seen'' a threshold = Inr (age_within ''seen'' threshold a)"
    by (simp add: seen_within_record)
  then have "get_aircrafts_body e False ''adsb'' threshold a res s
               = (Inr (res @ (if age_within ''seen'' threshold a then [a] else [])), s)"
    by (simp add: get_aircrafts_body_def bindE_def liftE_def returnE_def)
  with Cons show ?case
    by (simp add: bindE_def)
qed

section \<open>The loop of the range computation and a sky without an aircraft in view\<close>






lemma get_aircrafts_adsb_count:
  assumes run: "get_aircrafts e pos ''adsb'' threshold False s = (Inr r, s')"
      and dl: "download e (PIAWARE_HOST e @ ''/skyaware/data/aircraft.json'') None None True s = (Inr (Some resp), sa)"
      and doc: "content resp = Parsed doc"
      and listed: "py_getitem doc ''aircraft'' = Inr (JArr acs)"
  shows "r = Count (length (filter (age_within (if pos then ''seen_pos'' else ''seen'') threshold) acs))"
proof -
  from listed obtain kvs where kvs: "doc = JObj kvs" "map_of kvs ''aircraft'' = Some (JArr acs)"
    by (cases doc) (auto simp: py_getitem_def split: option.splits)
  then have has: "py_in ''aircraft'' doc = Inr True"
    by (simp add: py_in_obj)
  from run obtain res sb where
    loop: "forE acs [] (get_aircrafts_body e pos ''adsb'' threshold) sa = (Inr res, sb)" and r: "r = Count (length res)"
    unfolding get_aircrafts_def
    by (auto simp: check_supported_def dl doc has listed response_json_def py_iter_def liftE_Inr returnE_def
             elim!: bindE_InrE)
  from adsb_loop_Inr [OF loop] r show ?thesis
    by simp
qed







section \<open>The filter on position ages, the loop of the process, the dispatcher\<close>

lemma record_obj: "aircraft_record a \<Longrightarrow> \<exists>kvs. a = JObj kvs"
  by (cases a) (auto simp: aircraft_record_def)

lemma special_registration_returns:
  "special_registration e (JObj kvs) s = (Inr (), s)"
  by (simp add: special_registration_def REGISTRATION_OF_SPECIAL_INTEREST_def py_in_obj bindE_def liftE_def returnE_def)

lemma special_icao_not_watched:
  assumes "\<not> on_watchlist e (JObj kvs)"
  shows "special_icao e (JObj kvs) s = (Inr (), s)"
proof (cases "map_of kvs ''hex''")
  case None
  then show ?thesis
    by (simp add: special_icao_def py_in_obj bindE_def liftE_def returnE_def)
next
  case (Some h)
  with assms have "contains_any (JStr (upper (trim e h))) (map fst ICAO_OF_SPECIAL_INTEREST) = Inr False"
    by (simp add: on_watchlist_def field_def contains_any_def)
  with Some show ?thesis
    by (simp add: special_icao_def py_in_obj py_getitem_def bindE_def liftE_def returnE_def Let_def)
qed

lemma process_special_interest_not_watched:
  assumes "\<not> on_watchlist e (JObj kvs)"
  shows "process_special_interest e (JObj kvs) s = (Inr (), s)"
  by (simp add: process_special_interest_def bindE_def special_registration_returns
                special_icao_not_watched [OF assms])

lemma get_aircrafts_body_with_position:
  assumes "aircraft_record a" and "\<not> (age_within ''seen_pos'' threshold a \<and> on_watchlist e a)"
  shows "get_aircrafts_body e True ''adsb'' threshold a res s
           = (Inr (res @ (if age_within ''seen_pos'' threshold a then [a] else [])), s)"
proof -
  from assms(1) obtain kvs where a: "a = JObj kvs"
    using record_obj by blast
  from assms(1) have sw: "seen_within ''seen_pos'' a threshold = Inr (age_within ''seen_pos'' threshold a)"
    by (simp add: seen_within_record)
  show ?thesis
  proof (cases "age_within ''seen_pos'' threshold a")
    case False
    with sw show ?thesis
      by (simp add: get_aircrafts_body_def bindE_def liftE_def returnE_def)
  next
    case True
    with assms(2) a have "\<not> on_watchlist e (JObj kvs)"
      by simp
    from process_special_interest_not_watched [OF this] sw True a show ?thesis
      by (simp add: get_aircrafts_body_def bindE_def liftE_def returnE_def)
  qed
qed

lemma adsb_loop_with_position:
  assumes "list_all (\<lambda>a. aircraft_record a \<and> \<not> (age_within ''seen_pos'' threshold a \<and> on_watchlist e a)) acs"
  shows "forE acs res (get_aircrafts_body e True ''adsb'' threshold) s
           = (Inr (res @ filter (age_within ''seen_pos'' threshold) acs), s)"
  using assms
proof (induction acs arbitrary: res)
  case Nil
  then show ?case by (simp add: returnE_def)
next
  case (Cons a acs)
  then have "get_aircrafts_body e True ''adsb'' threshold a res s
               = (Inr (res @ (if age_within ''seen_pos'' threshold a then [a] else [])), s)"
    by (simp add: get_aircrafts_body_with_position)
  with Cons show ?case
    by (simp add: bindE_def)
qed

lemma seen_within_missing: "map_of kvs k = None \<Longrightarrow> seen_within k (JObj kvs) threshold = Inr False"
  by (simp add: seen_within_def py_in_obj)

lemma seen_within_boundary:
  "map_of kvs k = Some (JNum (of_int threshold)) \<Longrightarrow> seen_within k (JObj kvs) threshold = Inr True"
  by (simp add: seen_within_def py_in_obj py_getitem_def py_le_def py_number_def)

lemma sleep_loop_returns: "\<exists>s'. sleep_loop i sleepy_display sleepy_updates s = (Inr (), s')"
proof (induction i sleepy_display sleepy_updates arbitrary: s rule: sleep_loop.induct)
  case (1 i sleepy_display sleepy_updates)
  show ?case
  proof (cases "i < sleepy_display")
    case False
    then show ?thesis
      by (simp add: sleep_loop.simps [of i] returnE_def)
  next
    case True
    obtain sa where sa: "(if Suc i mod sleepy_updates = 0
               then logging INFO ''Slept %s/%s seconds after refresh cycle %s''
               else returnE ()) s = (Inr (), sa)"
      by (cases "Suc i mod sleepy_updates = 0") (simp_all add: logging_def returnE_def)
    from "1.IH" [OF True, of sa] obtain s' where
      "sleep_loop (Suc i) sleepy_display sleepy_updates sa = (Inr (), s')" ..
    with True sa show ?thesis
      by (simp add: sleep_loop.simps [of i] bindE_def)
  qed
qed

lemma process_interrupt_13_Inr:
  assumes "process_interrupt e 13 s = (Inr u, s')"
  shows "\<exists>scr. hw s' = hw s @ [EpdInit, EpdDisplay scr, EpdSleep]
                  @ (if RUNNING_IN_DOCKER e then [] else [SaveImage])"
proof -
  from assms obtain sa r where
    lg: "logging INFO ''Received Event on Pin %s - Executing Refresh.'' s = (Inr (), sa)" and
    rf: "refresh e 0 sa = (Inr r, s')"
    unfolding process_interrupt_def
    by (auto elim!: bindE_InrE simp: returnE_def)
  from rf obtain n where "refresh_body e 0 sa = (Inr n, s')"
    by (rule refresh_Inr)
  from refresh_body_Inr [OF this] quietD [OF quiet_logging lg] show ?thesis
    by auto
qed

lemma process_iteration_Inr:
  assumes "process_iteration e cycle s = (Inr c, s')"
  shows "c = Some (cycle + 1)"
proof -
  from assms obtain sa sb where rf: "refresh e cycle sa = (Inr c, sb)"
    unfolding process_iteration_def
    by (auto elim!: bindE_InrE simp: returnE_def)
  from rf obtain n where "c = Some n" and "refresh_body e cycle sa = (Inr n, sb)"
    by (rule refresh_Inr)
  with refresh_body_Inr [of e cycle sa n sb] show ?thesis
    by simp
qed





section \<open>Telemetry client\<close>

text \<open>
  Claim C7. A URL that \<^verbatim>\<open>urlparse\<close> cannot parse, or parses without a scheme or without a
  network location, makes \<^verbatim>\<open>download\<close> raise \<^verbatim>\<open>RuntimeError\<close>; the state is the one it
  was called in, so no request was issued and nothing was logged, and the result is
  not the \<^verbatim>\<open>False\<close> of a failed transfer.
\<close>

theorem download_rejects_malformed_url:
  assumes "urlparse e url = None
           \<or> (\<exists>parts. urlparse e url = Some parts \<and> (scheme parts = [] \<or> netloc parts = []))"
  shows "download e url retry backoff bust s = (Inl RuntimeError, s)"
  using assms by (auto simp: download_def is_valid_url_def)

text \<open>In the laboratory a URL without \<^verbatim>\<open>http://\<close> has neither scheme nor location, and
  the download of it raises before any request, even on a dead network.\<close>

theorem download_rejects_malformed_url_witness:
  "urlparse (lab_env net_down) ''127.0.0.1:8080/status.json'' = Some \<lparr>scheme = [], netloc = []\<rparr>
   \<and> download (lab_env net_down) ''127.0.0.1:8080/status.json'' None None True boot
       = (Inl RuntimeError, boot)"
  using download_rejects_malformed_url
          [of "lab_env net_down" "''127.0.0.1:8080/status.json''" None None True boot]
  by (simp add: lab_env_def lab_urlparse_def)

text \<open>
  Claim C3, at the input where the code leaves it. The three fetches call
  \<^verbatim>\<open>r.json()\<close> outside any \<^verbatim>\<open>try\<close>: when the server answers 200 with a body that is
  not JSON, each of them raises the decode error instead of returning an empty
  mapping.
\<close>

theorem fetch_raises_on_malformed_body:
  "fst (get_status (lab_env (net_body Malformed)) boot) = Inl JSONDecodeError
   \<and> fst (get_receiver (lab_env (net_body Malformed)) boot) = Inl JSONDecodeError
   \<and> fst (get_aircrafts (lab_env (net_body Malformed)) True ''adsb'' 120 False boot)
       = Inl JSONDecodeError"
  by (simp add: fetch_simps lab_simps monad_simps)

section \<open>Aircraft filter: the mode check and the raw result\<close>

text \<open>
  Claim C8. A mode other than \<^verbatim>\<open>adsb\<close> and \<^verbatim>\<open>mlat\<close> makes \<^verbatim>\<open>get_aircrafts\<close> raise
  \<^verbatim>\<open>ValueError\<close> in the state it was called in: before any request, before any record
  is looked at, and without the warning of the loop's last branch.
\<close>

theorem get_aircrafts_unsupported_mode_fails_fast:
  assumes "mode \<noteq> ''adsb''" and "mode \<noteq> ''mlat''"
  shows "get_aircrafts e pos mode threshold raw s = (Inl ValueError, s)"
  using assms by (simp add: get_aircrafts_def check_supported_def monad_simps)

text \<open>The mode \<^verbatim>\<open>uat\<close> in the laboratory, on a network that would have answered.\<close>

theorem get_aircrafts_unsupported_mode_witness:
  "get_aircrafts (lab_env (net_body (Parsed empty_sky))) True ''uat'' 120 False boot
     = (Inl ValueError, boot)"
  using get_aircrafts_unsupported_mode_fails_fast
          [of "''uat''" "lab_env (net_body (Parsed empty_sky))" True 120 False boot]
  by simp

text \<open>
  Claim C4, at the inputs where the code leaves it. With \<^verbatim>\<open>raw=True\<close> the document is
  returned only under \<^verbatim>\<open>if "aircraft" in json\<close>. When the transfer fails, or the
  document has no \<^verbatim>\<open>aircraft\<close> key, the call falls through to the end of the function
  and returns the count 0, an \<^verbatim>\<open>int\<close>, not the container.
\<close>

theorem get_aircrafts_raw_returns_count_without_key:
  "fst (get_aircrafts (lab_env net_down) True ''adsb'' 120 True boot) = Inr (Count 0)
   \<and> fst (get_aircrafts (lab_env (net_body (Parsed (JObj [(''now'', JNum 1)])))) True ''adsb'' 120 True boot)
       = Inr (Count 0)"
  by (simp add: fetch_simps lab_simps monad_simps py_simps)

section \<open>Emergency scan: the sentinel\<close>

text \<open>
  Claim C1, at the inputs where the code leaves it. The branch that sets the count to
  666 is behind \<^verbatim>\<open>"aircraft" in aircrafts\<close>, and \<^verbatim>\<open>aircrafts\<close> is then the integer 0
  that \<^verbatim>\<open>get_aircrafts(raw=True)\<close> returned: the membership test raises \<^verbatim>\<open>TypeError\<close>,
  in count mode as in slug mode, whether the transfer failed or the document lacks
  the key.
\<close>

theorem has_emergency_raises_without_aircraft_key:
  "fst (has_emergency (lab_env net_down) ''OK'' ''count'' boot) = Inl TypeError
   \<and> fst (has_emergency (lab_env (net_body (Parsed (JObj [(''now'', JNum 1)])))) ''OK'' ''count'' boot)
       = Inl TypeError
   \<and> fst (has_emergency (lab_env net_down) ''OK'' ''slug'' boot) = Inl TypeError"
  by (simp add: has_emergency_def aircrafts_in_def fetch_simps lab_simps monad_simps py_simps)

section \<open>Notification dispatcher: what it returns and what it lets through\<close>




section \<open>Aircraft filter: the age tests of mode adsb\<close>

text \<open>
  Claim C5. In mode \<^verbatim>\<open>adsb\<close> the loop of \<^verbatim>\<open>get_aircrafts\<close> keeps exactly the records whose
  age (\<^verbatim>\<open>seen_pos\<close> when \<^verbatim>\<open>pos\<close> is set, else \<^verbatim>\<open>seen\<close>) is present and at most the
  threshold, in the order of the document. Whenever the loop completes its result is
  that selection; it does complete, in the state it started in, on aircraft records
  when \<^verbatim>\<open>pos\<close> is off, and when \<^verbatim>\<open>pos\<close> is on provided no kept record is on the
  watchlist (a kept record that is on it goes on to the notification path). The count
  \<^verbatim>\<open>get_aircrafts\<close> returns is the length of the selection. A record without the age
  is dropped whatever the threshold, and an age equal to the threshold is kept.
\<close>

theorem adsb_filter_keeps_by_age:
  "(forE acs [] (get_aircrafts_body e pos ''adsb'' threshold) s = (Inr res, s')
      \<longrightarrow> res = filter (age_within (if pos then ''seen_pos'' else ''seen'') threshold) acs)
   \<and> (list_all aircraft_record acs
      \<longrightarrow> forE acs [] (get_aircrafts_body e False ''adsb'' threshold) s
            = (Inr (filter (age_within ''seen'' threshold) acs), s))
   \<and> (list_all (\<lambda>a. aircraft_record a \<and> \<not> (age_within ''seen_pos'' threshold a \<and> on_watchlist e a)) acs
      \<longrightarrow> forE acs [] (get_aircrafts_body e True ''adsb'' threshold) s
            = (Inr (filter (age_within ''seen_pos'' threshold) acs), s))
   \<and> (get_aircrafts e pos ''adsb'' threshold False s = (Inr r, sb)
       \<and> download e (PIAWARE_HOST e @ ''/skyaware/data/aircraft.json'') None None True s = (Inr (Some resp), sa)
       \<and> content resp = Parsed doc \<and> py_getitem doc ''aircraft'' = Inr (JArr acs)
      \<longrightarrow> r = Count (length (filter (age_within (if pos then ''seen_pos'' else ''seen'') threshold) acs)))
   \<and> (map_of kvs k = None \<longrightarrow> seen_within k (JObj kvs) threshold = Inr False)
   \<and> (map_of kvs k = Some (JNum (of_int threshold)) \<longrightarrow> seen_within k (JObj kvs) threshold = Inr True)"
proof (intro conjI impI)
  assume "forE acs [] (get_aircrafts_body e pos ''adsb'' threshold) s = (Inr res, s')"
  from adsb_loop_Inr [OF this]
  show "res = filter (age_within (if pos then ''seen_pos'' else ''seen'') threshold) acs"
    by simp
next
  assume "list_all aircraft_record acs"
  from adsb_loop_without_position [OF this, of "[]" e threshold s]
  show "forE acs [] (get_aircrafts_body e False ''adsb'' threshold) s
            = (Inr (filter (age_within ''seen'' threshold) acs), s)"
    by simp
next
  assume "list_all (\<lambda>a. aircraft_record a \<and> \<not> (age_within ''seen_pos'' threshold a \<and> on_watchlist e a)) acs"
  from adsb_loop_with_position [OF this, of "[]" s]
  show "forE acs [] (get_aircrafts_body e True ''adsb'' threshold) s
            = (Inr (filter (age_within ''seen_pos'' threshold) acs), s)"
    by simp
next
  assume "get_aircrafts e pos ''adsb'' threshold False s = (Inr r, sb)
       \<and> download e (PIAWARE_HOST e @ ''/skyaware/data/aircraft.json'') None None True s = (Inr (Some resp), sa)
       \<and> content resp = Parsed doc \<and> py_getitem doc ''aircraft'' = Inr (JArr acs)"
  then show "r = Count (length (filter (age_within (if pos then ''seen_pos'' else ''seen'') threshold) acs))"
    using get_aircrafts_adsb_count [of e pos threshold s r sb resp sa doc acs] by blast
next
  assume "map_of kvs k = None"
  then show "seen_within k (JObj kvs) threshold = Inr False"
    by (rule seen_within_missing)
next
  assume "map_of kvs k = Some (JNum (of_int threshold))"
  then show "seen_within k (JObj kvs) threshold = Inr True"
    by (rule seen_within_boundary)
qed

text \<open>The three aircraft of the laboratory: only the first is kept, by either age.\<close>

lemma lab_aircraft_by_seen: "filter (age_within ''seen'' 120) lab_aircraft = [lab_aircraft ! 0]"
  by (simp add: lab_aircraft_def record_simps py_number_def)

lemma lab_aircraft_by_seen_pos: "filter (age_within ''seen_pos'' 120) lab_aircraft = [lab_aircraft ! 0]"
  by (simp add: lab_aircraft_def record_simps py_number_def)

lemma lab_aircraft_records: "list_all aircraft_record lab_aircraft"
  by (simp add: lab_aircraft_def record_simps py_number_def)

lemma lab_aircraft_unwatched:
  "list_all (\<lambda>a. aircraft_record a \<and> \<not> (age_within ''seen_pos'' 120 a \<and> on_watchlist (lab_env net) a))
     lab_aircraft"
  by (simp add: lab_aircraft_def record_simps py_number_def on_watchlist_def
                ICAO_OF_SPECIAL_INTEREST_def trim_def str_of_def strip_def is_space_def
                upper_def upper_char_def)

lemma lab_near_sky_download:
  "download (lab_env (lab_site near_sky)) (PIAWARE_HOST (lab_env (lab_site near_sky)) @ ''/skyaware/data/aircraft.json'')
      None None True boot
     = (Inr (Some \<lparr>status_code = 200, content = Parsed near_sky\<rparr>),
        boot\<lparr>requests := [\<lparr>req_url = ''http://127.0.0.1:8080/skyaware/data/aircraft.json'',
                             req_bust = True, req_retry = 10, req_backoff = Finite 1\<rparr>]\<rparr>)"
  by (simp add: download_def is_valid_url_def lab_simps lab_site_def Let_def)

lemma lab_near_sky_count:
  "\<exists>s'. get_aircrafts (lab_env (lab_site near_sky)) True ''adsb'' 120 False boot = (Inr (Count 1), s')"
  by (simp add: fetch_simps lab_simps monad_simps py_simps lab_site_def near_sky_def lab_aircraft_def
        get_aircrafts_body_def seen_within_def Let_def process_special_interest_def
        special_registration_def special_icao_def REGISTRATION_OF_SPECIAL_INTEREST_def
        ICAO_OF_SPECIAL_INTEREST_def contains_any_def trim_def str_of_def strip_def is_space_def
        upper_def upper_char_def)

theorem adsb_filter_keeps_by_age_witness:
  "forE lab_aircraft [] (get_aircrafts_body (lab_env net_down) False ''adsb'' 120) boot
     = (Inr [lab_aircraft ! 0], boot)
   \<and> forE lab_aircraft [] (get_aircrafts_body (lab_env net_down) True ''adsb'' 120) boot
     = (Inr [lab_aircraft ! 0], boot)
   \<and> (\<exists>s'. get_aircrafts (lab_env (lab_site near_sky)) True ''adsb'' 120 False boot = (Inr (Count 1), s'))
   \<and> seen_within ''seen_pos'' (lab_aircraft ! 1) 120 = Inr False
   \<and> seen_within ''seen_pos'' (lab_aircraft ! 0) 120 = Inr True"
proof -
  note main = adsb_filter_keeps_by_age
  from main [where acs = lab_aircraft and e = "lab_env net_down" and threshold = 120 and s = boot]
       lab_aircraft_records
  have 1: "forE lab_aircraft [] (get_aircrafts_body (lab_env net_down) False ''adsb'' 120) boot
     = (Inr [lab_aircraft ! 0], boot)"
    by (simp add: lab_aircraft_by_seen)
  from main [where acs = lab_aircraft and e = "lab_env net_down" and threshold = 120 and s = boot]
       lab_aircraft_unwatched [of net_down]
  have 2: "forE lab_aircraft [] (get_aircrafts_body (lab_env net_down) True ''adsb'' 120) boot
     = (Inr [lab_aircraft ! 0], boot)"
    by (simp add: lab_aircraft_by_seen_pos)
  obtain r sb where run: "get_aircrafts (lab_env (lab_site near_sky)) True ''adsb'' 120 False boot = (Inr r, sb)"
    using lab_near_sky_count by blast
  have listed: "py_getitem near_sky ''aircraft'' = Inr (JArr lab_aircraft)"
    by (simp add: near_sky_def py_getitem_def)
  from main [where acs = lab_aircraft and e = "lab_env (lab_site near_sky)" and pos = True
               and threshold = 120 and s = boot and r = r and sb = sb
               and resp = "\<lparr>status_code = 200, content = Parsed near_sky\<rparr>" and doc = near_sky]
       run lab_near_sky_download listed
  have "r = Count (length (filter (age_within ''seen_pos'' 120) lab_aircraft))"
    by simp
  with run have 3: "\<exists>s'. get_aircrafts (lab_env (lab_site near_sky)) True ''adsb'' 120 False boot = (Inr (Count 1), s')"
    by (simp add: lab_aircraft_by_seen_pos)
  from main [where threshold = 120 and kvs = "[(''hex'', JStr ''4b1805''), (''seen'', JNum 121)]"
               and k = "''seen_pos''"]
  have 4: "seen_within ''seen_pos'' (lab_aircraft ! 1) 120 = Inr False"
    by (simp add: lab_aircraft_def)
  from main [where threshold = 120 and k = "''seen_pos''"
               and kvs = "[(''hex'', JStr ''3c6444''), (''flight'', JStr ''DLH400  ''), (''lat'', JNum 50),
                (''lon'', JNum 9), (''seen_pos'', JNum 120), (''seen'', JNum (1 / 2))]"]
  have 5: "seen_within ''seen_pos'' (lab_aircraft ! 0) 120 = Inr True"
    by (simp add: lab_aircraft_def)
  from 1 2 3 4 5 show ?thesis
    by simp
qed

section \<open>Range computation: a sky without an aircraft in view\<close>









section \<open>Refresh cycle: when the display is cleared and what becomes of the counter\<close>

text \<open>
  Claim C2, amended. A refresh that completes returns its cycle argument plus one and
  has issued, in this order, the initialisation of the display, a clear to white if
  and only if the cycle argument is 1, the drawing, the sleep of the display and
  (outside Docker) the image file. The refresh forced through pin 13 runs with cycle
  argument 0: it initialises, draws and sleeps without a clear, and the handler drops
  the number \<^verbatim>\<open>refresh\<close> returns, so the variable of the loop is not touched. A pass of
  the loop of \<^verbatim>\<open>process\<close> leaves that variable at its value plus one.
\<close>

theorem refresh_clears_only_in_cycle_1:
  "(refresh e cycle s = (Inr r, s')
      \<longrightarrow> r = Some (cycle + 1)
          \<and> (\<exists>scr. hw s' = hw s @ EpdInit # (if cycle = 1 then [EpdClear ''0xFF''] else [])
                       @ [EpdDisplay scr, EpdSleep] @ (if RUNNING_IN_DOCKER e then [] else [SaveImage])))
   \<and> (process_interrupt e 13 s = (Inr u, s')
      \<longrightarrow> (\<exists>scr. hw s' = hw s @ [EpdInit, EpdDisplay scr, EpdSleep]
                       @ (if RUNNING_IN_DOCKER e then [] else [SaveImage])))
   \<and> (process_iteration e cycle s = (Inr c, s') \<longrightarrow> c = Some (cycle + 1))"
proof (intro conjI impI)
  assume run: "refresh e cycle s = (Inr r, s')"
  then obtain n where n: "r = Some n" "refresh_body e cycle s = (Inr n, s')"
    by (rule refresh_Inr)
  from refresh_body_Inr [OF n(2)] n(1) show "r = Some (cycle + 1)"
    by simp
  from refresh_body_Inr [OF n(2)]
  show "\<exists>scr. hw s' = hw s @ EpdInit # (if cycle = 1 then [EpdClear ''0xFF''] else [])
                       @ [EpdDisplay scr, EpdSleep] @ (if RUNNING_IN_DOCKER e then [] else [SaveImage])"
    by simp
next
  assume "process_interrupt e 13 s = (Inr u, s')"
  then show "\<exists>scr. hw s' = hw s @ [EpdInit, EpdDisplay scr, EpdSleep]
                       @ (if RUNNING_IN_DOCKER e then [] else [SaveImage])"
    by (rule process_interrupt_13_Inr)
next
  assume "process_iteration e cycle s = (Inr c, s')"
  then show "c = Some (cycle + 1)"
    by (rule process_iteration_Inr)
qed

text \<open>In the laboratory, on the site whose aircraft are out of view, the refreshes of
  cycle 0 and cycle 1 complete from any log, and so do the interrupt of pin 13 and a
  pass of the loop.\<close>

lemma lab_refresh_returns:
  "\<exists>r s'. refresh (lab_env (lab_site far_sky)) 0 (boot\<lparr>logs := l\<rparr>) = (Inr r, s')"
  "\<exists>r s'. refresh (lab_env (lab_site far_sky)) 1 (boot\<lparr>logs := l\<rparr>) = (Inr r, s')"
  by (simp_all add: refresh_simps fetch_simps lab_simps monad_simps py_simps site_simps Let_def)

lemma lab_interrupt_returns:
  "\<exists>u s'. process_interrupt (lab_env (lab_site far_sky)) 13 boot = (Inr u, s')"
proof -
  obtain r s' where
    "refresh (lab_env (lab_site far_sky)) 0
       (boot\<lparr>logs := [(INFO, ''Received Event on Pin %s - Executing Refresh.'')]\<rparr>) = (Inr r, s')"
    using lab_refresh_returns(1) by blast
  then show ?thesis
    by (simp add: process_interrupt_def bindE_def logging_def returnE_def boot_def)
qed

lemma lab_iteration_returns:
  "\<exists>c s'. process_iteration (lab_env (lab_site far_sky)) 1 boot = (Inr c, s')"
proof -
  obtain r sa where
    1: "refresh (lab_env (lab_site far_sky)) 1
       (boot\<lparr>logs := [(INFO, ''Starting Refresh Cycle %s'')]\<rparr>) = (Inr r, sa)"
    using lab_refresh_returns(2) by blast
  obtain sb where
    2: "sleep_loop 0 300 30
          (sa\<lparr>logs := logs sa @ [(INFO, ''Sleeping for %s seconds after refresh cycle %s (Ping every %ss)'')]\<rparr>)
        = (Inr (), sb)"
    using sleep_loop_returns by blast
  from 1 2 show ?thesis
    by (simp add: process_iteration_def bindE_def logging_def returnE_def boot_def)
qed

theorem refresh_clears_only_in_cycle_1_witness:
  "(\<exists>s' scr. refresh (lab_env (lab_site far_sky)) 0 boot = (Inr (Some 1), s')
        \<and> hw s' = [EpdInit, EpdDisplay scr, EpdSleep, SaveImage])
   \<and> (\<exists>s' scr. refresh (lab_env (lab_site far_sky)) 1 boot = (Inr (Some 2), s')
        \<and> hw s' = [EpdInit, EpdClear ''0xFF'', EpdDisplay scr, EpdSleep, SaveImage])
   \<and> (\<exists>s' scr. process_interrupt (lab_env (lab_site far_sky)) 13 boot = (Inr (), s')
        \<and> hw s' = [EpdInit, EpdDisplay scr, EpdSleep, SaveImage])
   \<and> (\<exists>s'. process_iteration (lab_env (lab_site far_sky)) 1 boot = (Inr (Some 2), s'))"
proof -
  note main = refresh_clears_only_in_cycle_1
  let ?e = "lab_env (lab_site far_sky)"
  have docker: "\<not> RUNNING_IN_DOCKER ?e"
    by (simp add: RUNNING_IN_DOCKER_def lab_env_def)
  have start: "boot\<lparr>logs := []\<rparr> = boot" "hw boot = []"
    by (simp_all add: boot_def)
  obtain r0 s0 where run0: "refresh ?e 0 boot = (Inr r0, s0)"
    using lab_refresh_returns(1) [of "[]"] by (auto simp: start)
  from main [where e = ?e and cycle = 0 and s = boot and r = r0 and s' = s0, THEN conjunct1] run0 docker
  have 0: "\<exists>s' scr. refresh ?e 0 boot = (Inr (Some 1), s')
        \<and> hw s' = [EpdInit, EpdDisplay scr, EpdSleep, SaveImage]"
    by (auto simp: start)
  obtain r1 s1 where run1: "refresh ?e 1 boot = (Inr r1, s1)"
    using lab_refresh_returns(2) [of "[]"] by (auto simp: start)
  from main [where e = ?e and cycle = 1 and s = boot and r = r1 and s' = s1, THEN conjunct1] run1 docker
  have 1: "\<exists>s' scr. refresh ?e 1 boot = (Inr (Some 2), s')
        \<and> hw s' = [EpdInit, EpdClear ''0xFF'', EpdDisplay scr, EpdSleep, SaveImage]"
    by (auto simp: start)
  obtain u s2 where run2: "process_interrupt ?e 13 boot = (Inr u, s2)"
    using lab_interrupt_returns by blast
  from main [where e = ?e and s = boot and u = u and s' = s2, THEN conjunct2, THEN conjunct1] run2 docker
  have 2: "\<exists>s' scr. process_interrupt ?e 13 boot = (Inr (), s')
        \<and> hw s' = [EpdInit, EpdDisplay scr, EpdSleep, SaveImage]"
    by (auto simp: start)
  obtain c s3 where run3: "process_iteration ?e 1 boot = (Inr c, s3)"
    using lab_iteration_returns by blast
  from main [where e = ?e and cycle = 1 and s = boot and c = c and s' = s3, THEN conjunct2, THEN conjunct2] run3
  have 3: "\<exists>s'. process_iteration ?e 1 boot = (Inr (Some 2), s')"
    by auto
  from 0 1 2 3 show ?thesis
    by blast
qed

text \<open>
  Claim C2 as stated fails in its first half: the forced refresh, \<^verbatim>\<open>refresh(cycle=0)\<close>,
  clears nothing. In the laboratory its hardware operations are the initialisation,
  the drawing, the sleep and the image file; \<^verbatim>\<open>clear_display\<close> is \<^verbatim>\<open>cycle == 1\<close>, false
  for 0.
\<close>

theorem forced_refresh_does_not_clear:
  "\<exists>s'. refresh (lab_env (lab_site far_sky)) 0 boot = (Inr (Some 1), s')
      \<and> hw s' =
          [EpdInit,
           EpdDisplay
             \<lparr>scr_status_slug = ''OK'',
              scr_status_time = ''01.01.1970, 00:00:00'',
              scr_status_piaware = JStr ''PiAware 8.2 is running'',
              scr_status_gps = JStr ''GPS 3D fix'',
              scr_status_radio = JStr ''Received Mode S data recently'',
              scr_count_all = Count 2, scr_count_pos = Count 0, scr_count_mlat = Count 0,
              scr_min_range = Finite 9223372036854776, scr_max_range = Finite 0,
              scr_uptime = ''0:00:00'', scr_cpu_load = JNum 12,
              scr_cpu_temp = JNum (97 / 2), scr_cycle = 0,
              scr_local_ip = ''127.0.0.1''\<rparr>,
           EpdSleep, SaveImage]"
  by (simp add: refresh_simps fetch_simps lab_simps monad_simps py_simps site_simps Let_def)

end
